theory Spec2Isabelle
  imports Complex_Main "HOL-Library.Sublist" "HOL-Library.Char_ord" "HOL-Library.List_Lexorder"
    "HOL-Library.AList" "HOL-Library.Multiset"
begin

section \<open>Python strings\<close>

text \<open>
  A Python \<open>str\<close> is modelled as a \<open>string\<close>: a list of characters, each standing for
  the code point of the same number. Code points above 255 are outside the model.
\<close>

definition newline :: char where
  "newline = CHR 0x0A"

text \<open>\<open>\d\<close> of a \<open>str\<close> pattern: the decimal digits (below code point 256 these are 0 to 9).\<close>

definition is_digit :: "char \<Rightarrow> bool" where
  "is_digit c = (c \<in> set ''0123456789'')"

text \<open>
  \<open>\s\<close> of a \<open>str\<close> pattern and the characters removed by \<open>str.strip()\<close>:
  the characters for which \<open>str.isspace\<close> holds.
\<close>

definition is_space :: "char \<Rightarrow> bool" where
  "is_space c = (c \<in> set [CHR 0x09, CHR 0x0A, CHR 0x0B, CHR 0x0C, CHR 0x0D,
                           CHR 0x1C, CHR 0x1D, CHR 0x1E, CHR 0x1F, CHR 0x20,
                           CHR 0x85, CHR 0xA0])"

definition strip :: "string \<Rightarrow> string" where
  "strip s = rev (dropWhile is_space (rev (dropWhile is_space s)))"

text \<open>\<open>sub in s\<close> for strings.\<close>

fun contains :: "string \<Rightarrow> string \<Rightarrow> bool" where
  "contains [] sub = (sub = [])"
| "contains (c # cs) sub = (prefix sub (c # cs) \<or> contains cs sub)"

text \<open>\<open>os.path.basename\<close> (POSIX): what follows the last slash.\<close>

definition basename :: "string \<Rightarrow> string" where
  "basename p = rev (takeWhile (\<lambda>c. c \<noteq> CHR ''/'') (rev p))"

text \<open>\<open>os.path.join\<close> (POSIX) of two components.\<close>

definition path_join :: "string \<Rightarrow> string \<Rightarrow> string" where
  "path_join a b =
     (if prefix ''/'' b then b
      else if a = [] \<or> last a = CHR ''/'' then a @ b
      else a @ ''/'' @ b)"

section \<open>plot\_eis.py: parse\_filename\<close>

text \<open>
  The compiled pattern of \<open>parse_filename\<close> is
  \<^verbatim>\<open>(\d+)_(.+?)\s(?:(pH\s\d+)\s)?(OCP|CAP|FAR)\s\((Nyquist|Bode|Nyquist and Bode)\)\<close>
  applied with \<open>pattern.match\<close>, so anchored at the start of the name only. The matcher
  below follows the backtracking engine piece by piece, from the end of the pattern to
  its start.
\<close>

text \<open>\<open>(OCP|CAP|FAR)\<close>: the alternatives in their order; the token and the rest.\<close>

definition match_condition :: "string \<Rightarrow> (string \<times> string) option" where
  "match_condition s =
     (if prefix ''OCP'' s then Some (''OCP'', drop 3 s)
      else if prefix ''CAP'' s then Some (''CAP'', drop 3 s)
      else if prefix ''FAR'' s then Some (''FAR'', drop 3 s)
      else None)"

text \<open>
  \<open>\s\((Nyquist|Bode|Nyquist and Bode)\)\<close>, the end of the pattern: one whitespace
  character, an opening parenthesis, and one of the alternatives followed by the closing
  parenthesis (an alternative that is not followed by it is given up for the next one).
\<close>

definition match_plot_type :: "string \<Rightarrow> bool" where
  "match_plot_type s =
     (case s of
        w # p # r \<Rightarrow>
          is_space w \<and> p = CHR ''('' \<and>
          (prefix ''Nyquist)'' r \<or> prefix ''Bode)'' r \<or> prefix ''Nyquist and Bode)'' r)
      | _ \<Rightarrow> False)"

text \<open>\<open>(OCP|CAP|FAR)\s\((Nyquist|Bode|Nyquist and Bode)\)\<close>: the condition token.\<close>

definition match_cond_tail :: "string \<Rightarrow> string option" where
  "match_cond_tail s =
     (case match_condition s of
        None \<Rightarrow> None
      | Some (c, r) \<Rightarrow> if match_plot_type r then Some c else None)"

text \<open>
  \<open>(pH\s\d+)\s\<close>: the captured text and the rest. \<open>\d+\<close> is greedy; giving digits
  back cannot help, since the character that follows must be whitespace.
\<close>

definition match_ph_group :: "string \<Rightarrow> (string \<times> string) option" where
  "match_ph_group s =
     (if prefix ''pH'' s then
        (case drop 2 s of
           [] \<Rightarrow> None
         | w # r \<Rightarrow>
             let d = takeWhile is_digit r; r' = dropWhile is_digit r in
             if is_space w \<and> d \<noteq> [] then
               (case r' of
                  [] \<Rightarrow> None
                | w' # r'' \<Rightarrow> if is_space w' then Some (''pH'' @ [w] @ d, r'') else None)
             else None)
      else None)"

text \<open>
  \<open>(?:(pH\s\d+)\s)?(OCP|CAP|FAR)\s\(...\)\<close>: the optional group is tried first, and
  skipped when it or what follows it fails. The result is group 3 (\<open>None\<close> when the
  group did not take part) and group 4.
\<close>

definition match_after_chem :: "string \<Rightarrow> (string option \<times> string) option" where
  "match_after_chem s =
     (case (case match_ph_group s of
              None \<Rightarrow> None
            | Some (ph, r) \<Rightarrow>
                (case match_cond_tail r of None \<Rightarrow> None | Some c \<Rightarrow> Some (Some ph, c))) of
        Some res \<Rightarrow> Some res
      | None \<Rightarrow>
          (case match_cond_tail s of None \<Rightarrow> None | Some c \<Rightarrow> Some (None, c)))"

text \<open>\<open>\s(?:(pH\s\d+)\s)?(OCP|CAP|FAR)\s\(...\)\<close>: what must follow the chemical name.\<close>

definition match_tail :: "string \<Rightarrow> (string option \<times> string) option" where
  "match_tail s =
     (case s of
        [] \<Rightarrow> None
      | w # r \<Rightarrow> if is_space w then match_after_chem r else None)"

text \<open>
  \<open>(.+?)\<close> followed by the tail: the group is lazy, so it takes one character (any but
  a newline), tries the tail, and takes one more character each time the tail fails.
  \<open>acc\<close> is what the group holds already.
\<close>

fun match_chem :: "string \<Rightarrow> string \<Rightarrow> (string \<times> string option \<times> string) option" where
  "match_chem acc [] = None"
| "match_chem acc (c # cs) =
     (if c = newline then None
      else
        (case match_tail cs of
           Some (ph, cond) \<Rightarrow> Some (acc @ [c], ph, cond)
         | None \<Rightarrow> match_chem (acc @ [c]) cs))"

text \<open>
  The whole pattern: \<open>(\d+)_\<close> takes the longest run of digits (a shorter one is
  followed by a digit, not by the underscore). The result is groups 1 to 4.
\<close>

definition match_pattern :: "string \<Rightarrow> (string \<times> string \<times> string option \<times> string) option" where
  "match_pattern s =
     (let idx = takeWhile is_digit s; r = dropWhile is_digit s in
      if idx \<noteq> [] \<and> prefix ''_'' r then
        (case match_chem [] (tl r) of
           None \<Rightarrow> None
         | Some (chem, ph, cond) \<Rightarrow> Some (idx, chem, ph, cond))
      else None)"

text \<open>\<open>re.search(r"(OCP|CAP|FAR)", filename)\<close>: group 1 of the leftmost match.\<close>

fun search_condition :: "string \<Rightarrow> string option" where
  "search_condition [] = None"
| "search_condition (c # cs) =
     (case match_condition (c # cs) of
        Some (t, r) \<Rightarrow> Some t
      | None \<Rightarrow> search_condition cs)"

text \<open>The dictionary returned, with its keys \<open>id\<close>, \<open>chemical\<close>, \<open>ph\<close> and \<open>condition\<close>.\<close>

record parsed_info =
  info_id :: string
  info_chemical :: string
  info_ph :: string
  info_condition :: string

text \<open>In the f-string of the id, a group that did not take part prints as \<open>None\<close>.\<close>

definition fmt_group :: "string option \<Rightarrow> string" where
  "fmt_group g = (case g of None \<Rightarrow> ''None'' | Some s \<Rightarrow> s)"

definition parse_filename :: "string \<Rightarrow> parsed_info option" where
  "parse_filename filepath =
     (let filename = basename filepath in
      case match_pattern filename of
        Some (p0, p1, p2, p3) \<Rightarrow>
          Some \<lparr>info_id = p0 @ ''_'' @ p1 @ '' '' @ fmt_group p2 @ '' '' @ p3,
                info_chemical = strip p1,
                info_ph = (case p2 of None \<Rightarrow> ''N/A'' | Some g \<Rightarrow> if g = [] then ''N/A'' else g),
                info_condition = p3\<rparr>
      | None \<Rightarrow>
          (case (if contains filename ''Cu'' then search_condition filename else None) of
             Some c \<Rightarrow>
               Some \<lparr>info_id = ''Cu_'' @ c, info_chemical = ''Cu'', info_ph = ''N/A'', info_condition = c\<rparr>
           | None \<Rightarrow>
               (case (if contains filename ''KReO4 + Na2SO4'' then search_condition filename
                      else None) of
                  Some c \<Rightarrow>
                    Some \<lparr>info_id = ''KReO4 + Na2SO4_'' @ c, info_chemical = ''KReO4 + Na2SO4'',
                          info_ph = ''N/A'', info_condition = c\<rparr>
                | None \<Rightarrow> None)))"

section \<open>The libraries and the file system\<close>

text \<open>
  The exceptions the scripts can meet. All of them derive from \<open>Exception\<close>, so an
  \<open>except Exception\<close> clause catches each one.
\<close>

datatype exn =
    FileNotFoundError
  | IndexError
  | KeyError
  | TypeError
  | ValueError
  | OtherException string

text \<open>
  Running a function gives the calls it made to the outside, in order, and how it ended.
  \<open>try_bind\<close> sequences two computations that can raise.
\<close>

datatype outcome = Returned | Raised exn

definition try_bind :: "exn + 'a \<Rightarrow> ('a \<Rightarrow> exn + 'b) \<Rightarrow> exn + 'b" where
  "try_bind m f = (case m of Inl e \<Rightarrow> Inl e | Inr x \<Rightarrow> f x)"

subsection \<open>pandas\<close>

text \<open>
  A column of a DataFrame is numeric or holds strings (dtype \<open>object\<close>). A float64
  value is modelled by the real number it stands for: rounding, NaN and the infinities
  are outside the model. A DataFrame is the list of its named columns, in order.
\<close>

datatype column = NumCol "real list" | ObjCol "string list"

datatype scalar = NumVal real | StrVal string

type_synonym dataframe = "(string \<times> column) list"

text \<open>\<open>name in df.columns\<close>\<close>

definition has_column :: "dataframe \<Rightarrow> string \<Rightarrow> bool" where
  "has_column df name = (name \<in> set (map fst df))"

text \<open>\<open>df[name]\<close>\<close>

definition get_column :: "dataframe \<Rightarrow> string \<Rightarrow> exn + column" where
  "get_column df name = (case map_of df name of None \<Rightarrow> Inl KeyError | Some c \<Rightarrow> Inr c)"

text \<open>\<open>df[name] = col\<close>: an existing column is replaced in place, a new one is appended.\<close>

definition set_column :: "dataframe \<Rightarrow> string \<Rightarrow> column \<Rightarrow> dataframe" where
  "set_column df name col = AList.update name col df"

text \<open>\<open>col.iloc[0]\<close>\<close>

definition iloc0 :: "column \<Rightarrow> exn + scalar" where
  "iloc0 col =
     (case col of
        NumCol [] \<Rightarrow> Inl IndexError
      | NumCol (v # _) \<Rightarrow> Inr (NumVal v)
      | ObjCol [] \<Rightarrow> Inl IndexError
      | ObjCol (s # _) \<Rightarrow> Inr (StrVal s))"

text \<open>
  \<open>col - v\<close>, \<open>col * k\<close> and \<open>col / d\<close>, element by element. On strings, subtraction and
  division raise \<open>TypeError\<close> at the first element, and multiplication by an integer
  repeats each string. A column without elements gives a column without elements.
\<close>

definition col_sub :: "column \<Rightarrow> scalar \<Rightarrow> exn + column" where
  "col_sub col v =
     (case (col, v) of
        (NumCol xs, NumVal a) \<Rightarrow> Inr (NumCol (map (\<lambda>x. x - a) xs))
      | (NumCol [], StrVal s) \<Rightarrow> Inr (NumCol [])
      | (NumCol (x # xs), StrVal s) \<Rightarrow> Inl TypeError
      | (ObjCol [], _) \<Rightarrow> Inr (ObjCol [])
      | (ObjCol (s # ss), _) \<Rightarrow> Inl TypeError)"

definition col_mul :: "column \<Rightarrow> nat \<Rightarrow> exn + column" where
  "col_mul col k =
     (case col of
        NumCol xs \<Rightarrow> Inr (NumCol (map (\<lambda>x. x * real k) xs))
      | ObjCol ss \<Rightarrow> Inr (ObjCol (map (\<lambda>s. concat (replicate k s)) ss)))"

definition col_div :: "column \<Rightarrow> real \<Rightarrow> exn + column" where
  "col_div col d =
     (case col of
        NumCol xs \<Rightarrow> Inr (NumCol (map (\<lambda>x. x / d) xs))
      | ObjCol [] \<Rightarrow> Inr (ObjCol [])
      | ObjCol (s # ss) \<Rightarrow> Inl TypeError)"

subsection \<open>matplotlib\<close>

text \<open>One \<open>ax.plot(x, y, label=..., ...)\<close> call: the two series and the style arguments.\<close>

record curve =
  xdata :: column
  ydata :: column
  label :: string
  color :: "string option"
  marker :: "string option"
  linestyle :: "string option"

datatype message =
    DirNotFound string
  | Skipping string
  | MissingColumns string
  | ProcessingError string exn
  | ReferenceError string exn
  | LoadError "string list" exn
  | Saved string
  | SaveError exn
  | Generated

text \<open>
  The calls recorded: a \<open>print\<close>, a \<open>pd.read_csv(path, sep=...)\<close>, an \<open>ax.plot\<close> on the
  subplot of the given index, the formatting of a subplot (title, axis labels, legend,
  grid) under its title, and a \<open>savefig\<close> that wrote its file.
\<close>

datatype event =
    Print message
  | ReadCsv string char
  | Plot nat curve
  | FormatAxes nat string
  | SaveFig string

text \<open>
  What the scripts get from outside: the directory listing, the parsed content of a file
  for a path and a separator, whether a path exists, the paths a glob pattern matches,
  the result of \<open>pd.merge(left, right, on="Frequency (Hz)", how="outer",
  suffixes=('', '_y'))\<close>, whether \<open>savefig\<close> to a path fails, and what \<open>plt.subplots\<close> does
  when asked for zero rows (some versions of the library raise, others return an empty
  array of axes).
\<close>

record env =
  os_listdir :: "string \<Rightarrow> exn + string list"
  pd_read_csv :: "string \<Rightarrow> char \<Rightarrow> exn + dataframe"
  os_path_exists :: "string \<Rightarrow> bool"
  glob_glob :: "string \<Rightarrow> string list"
  pd_merge :: "dataframe \<Rightarrow> dataframe \<Rightarrow> exn + dataframe"
  fig_savefig :: "string \<Rightarrow> exn option"
  plt_subplots_zero_rows :: "exn option"

definition TAB :: char where
  "TAB = CHR 0x09"

definition SEMICOLON :: char where
  "SEMICOLON = CHR '';''"

text \<open>
  \<open>plt.subplots(n, 1)\<close> with the default \<open>squeeze=True\<close>: one row gives the Axes object
  itself, several rows give an array of them.
\<close>

datatype axes = SingleAxes | AxesArray nat

definition plt_subplots :: "env \<Rightarrow> nat \<Rightarrow> exn + axes" where
  "plt_subplots e n =
     (if n = 0 then (case plt_subplots_zero_rows e of Some x \<Rightarrow> Inl x | None \<Rightarrow> Inr (AxesArray 0))
      else if n = 1 then Inr SingleAxes
      else Inr (AxesArray n))"

text \<open>\<open>axes[i]\<close>: an Axes object is not subscriptable; the result is the index of the subplot.\<close>

definition axes_item :: "axes \<Rightarrow> int \<Rightarrow> exn + nat" where
  "axes_item a i =
     (case a of
        SingleAxes \<Rightarrow> Inl TypeError
      | AxesArray n \<Rightarrow>
          let j = (if i < 0 then int n + i else i) in
          if 0 \<le> j \<and> j < int n then Inr (nat j) else Inl IndexError)"

text \<open>
  The end of the two chronoamperometry scripts:
  \<^verbatim>\<open>
  try:
      fig.savefig(output_filename, dpi=600, bbox_inches='tight')
      print(f"... saved as '{output_filename}'")
  except Exception as e:
      print(f"... Error saving file: {e}")
  \<close>
\<close>

definition save_figure :: "env \<Rightarrow> string \<Rightarrow> event list" where
  "save_figure e output_filename =
     (case fig_savefig e output_filename of
        None \<Rightarrow> [SaveFig output_filename, Print (Saved output_filename)]
      | Some x \<Rightarrow> [Print (SaveError x)])"


section \<open>plot\_ca.py\<close>

text \<open>
  \<open>re.search(r'pH(\d+)', filename)\<close>: group 1 of the leftmost match, the longest run of
  digits after the first \<open>pH\<close> that is followed by a digit.
\<close>

definition match_ph :: "string \<Rightarrow> string option" where
  "match_ph s =
     (if prefix ''pH'' s \<and> takeWhile is_digit (drop 2 s) \<noteq> []
      then Some (takeWhile is_digit (drop 2 s)) else None)"

fun search_ph :: "string \<Rightarrow> string option" where
  "search_ph [] = None"
| "search_ph (c # cs) =
     (case match_ph (c # cs) of Some d \<Rightarrow> Some d | None \<Rightarrow> search_ph cs)"

text \<open>
  \<open>(.*)\.txt\<close>: the group is greedy, so it takes every character up to the next newline
  and gives characters back until \<open>.txt\<close> follows.
\<close>

fun match_dotstar_txt :: "string \<Rightarrow> string option" where
  "match_dotstar_txt [] = None"
| "match_dotstar_txt (c # cs) =
     (if c = newline then None
      else
        (case match_dotstar_txt cs of
           Some g \<Rightarrow> Some (c # g)
         | None \<Rightarrow> if prefix ''.txt'' (c # cs) then Some [] else None))"

text \<open>
  \<open>re.search(r'pH\d+_(.*)\.txt', filename)\<close>: group 1 of the leftmost match. The run of
  digits is the longest one, since an underscore must follow it.
\<close>

definition match_ph_label :: "string \<Rightarrow> string option" where
  "match_ph_label s =
     (if prefix ''pH'' s then
        (let d = takeWhile is_digit (drop 2 s); r = dropWhile is_digit (drop 2 s) in
         if d \<noteq> [] \<and> prefix ''_'' r then match_dotstar_txt (tl r) else None)
      else None)"

fun search_ph_label :: "string \<Rightarrow> string option" where
  "search_ph_label [] = None"
| "search_ph_label (c # cs) =
     (case match_ph_label (c # cs) of Some g \<Rightarrow> Some g | None \<Rightarrow> search_ph_label cs)"

text \<open>The label of a file, lines 46 to 56 of \<open>generate_styled_plot\<close>.\<close>

definition plot_label :: "string \<Rightarrow> string option" where
  "plot_label filename =
     (if contains filename ''pH'' then
        (case (search_ph filename, search_ph_label filename) of
           (Some d, Some g) \<Rightarrow> Some (strip g @ '' (pH '' @ d @ '')'')
         | _ \<Rightarrow> None)
      else if contains filename ''Cu'' then Some ''Cu''
      else None)"

definition markers :: "string list" where
  "markers = [''o'', ''s'', ''^'', ''D'', ''v'', ''p'', ''*'', ''<'', ''>'', ''X'']"

definition linestyles :: "string list" where
  "linestyles = [''-'', ''--'', ''-.'', '':'']"

definition time_col_s :: string where
  "time_col_s = ''Time (s)''"

definition charge_col :: string where
  "charge_col = ''WE(1).Charge (C)''"

text \<open>
  Lines 71 to 75 and the two series handed to \<open>ax.plot\<close>:
  \<^verbatim>\<open>
  initial_time = data[time_col_s].iloc[0]
  data[time_col_s] = data[time_col_s] - initial_time
  data['Time (min)'] = data[time_col_s] / 60
  \<close>
\<close>

definition normalise_time :: "dataframe \<Rightarrow> exn + (column \<times> column)" where
  "normalise_time data =
     try_bind (get_column data time_col_s) (\<lambda>t.
     try_bind (iloc0 t) (\<lambda>initial_time.
     try_bind (get_column data time_col_s) (\<lambda>t.
     try_bind (col_sub t initial_time) (\<lambda>shifted.
     let data1 = set_column data time_col_s shifted in
     try_bind (get_column data1 time_col_s) (\<lambda>t1.
     try_bind (col_div t1 60) (\<lambda>minutes.
     let data2 = set_column data1 ''Time (min)'' minutes in
     try_bind (get_column data2 ''Time (min)'') (\<lambda>x.
     try_bind (get_column data2 charge_col) (\<lambda>y.
     Inr (x, y)))))))))"

text \<open>
  The body of the loop over the files (lines 46 to 90): the calls made for one file and
  the value of \<open>plot_index\<close> after it.
\<close>

definition plot_file :: "env \<Rightarrow> string \<Rightarrow> nat \<Rightarrow> string \<Rightarrow> event list \<times> nat" where
  "plot_file e directory_path plot_index filename =
     (case plot_label filename of
        None \<Rightarrow> ([Print (Skipping filename)], plot_index)
      | Some lbl \<Rightarrow>
          if lbl = [] then ([Print (Skipping filename)], plot_index)
          else
            let file_path = path_join directory_path filename in
            (case pd_read_csv e file_path TAB of
               Inl x \<Rightarrow>
                 ([ReadCsv file_path TAB, Print (ProcessingError filename x)], plot_index)
             | Inr data \<Rightarrow>
                 if has_column data time_col_s \<and> has_column data charge_col then
                   (case normalise_time data of
                      Inl x \<Rightarrow>
                        ([ReadCsv file_path TAB, Print (ProcessingError filename x)],
                         plot_index)
                    | Inr (x, y) \<Rightarrow>
                        ([ReadCsv file_path TAB,
                          Plot 0 \<lparr>xdata = x, ydata = y, label = lbl, color = None,
                                  marker = Some (markers ! (plot_index mod length markers)),
                                  linestyle =
                                    Some (linestyles ! (plot_index mod length linestyles))\<rparr>],
                         plot_index + 1))
                 else ([ReadCsv file_path TAB, Print (MissingColumns filename)], plot_index)))"

fun plot_files :: "env \<Rightarrow> string \<Rightarrow> nat \<Rightarrow> string list \<Rightarrow> event list" where
  "plot_files e directory_path plot_index [] = []"
| "plot_files e directory_path plot_index (filename # rest) =
     (case plot_file e directory_path plot_index filename of
        (evs, plot_index') \<Rightarrow> evs @ plot_files e directory_path plot_index' rest)"

text \<open>\<open>sorted([f for f in names if f.endswith(".txt")])\<close>\<close>

definition txt_files :: "string list \<Rightarrow> string list" where
  "txt_files names = sort (filter (\<lambda>f. suffix ''.txt'' f) names)"

definition generate_styled_plot :: "env \<Rightarrow> string \<Rightarrow> string \<Rightarrow> event list \<times> outcome" where
  "generate_styled_plot e directory_path output_filename =
     (case os_listdir e directory_path of
        Inl x \<Rightarrow>
          if x = FileNotFoundError then ([Print (DirNotFound directory_path)], Returned)
          else ([], Raised x)
      | Inr names \<Rightarrow>
          let all_files = txt_files names in
          (plot_files e directory_path 0 all_files
             @ [FormatAxes 0 ''Combined Chronoamperometry Analysis (Time Normalised)'']
             @ save_figure e output_filename,
           Returned))"


section \<open>plot\_ca\_j.py\<close>

text \<open>The module constant, set to \<open>1.0\<close> in \<open>plot_ca_j.py\<close> and in \<open>plot_lsv.py\<close> alike.\<close>

definition ELECTRODE_AREA_CM2 :: real where
  "ELECTRODE_AREA_CM2 = 1"

definition current_col :: string where
  "current_col = ''WE(1).Current (A)''"

text \<open>Running one part of a function after another: an exception ends the run.\<close>

definition then_run :: "event list \<times> outcome \<Rightarrow> event list \<times> outcome \<Rightarrow> event list \<times> outcome" where
  "then_run a b =
     (case a of
        (evs, Raised x) \<Rightarrow> (evs, Raised x)
      | (evs, Returned) \<Rightarrow> (evs @ fst b, snd b))"

text \<open>\<open>grouped_files[key].append(path)\<close> on a \<open>defaultdict(list)\<close>, and \<open>grouped_files[key]\<close>.\<close>

definition dict_append :: "('k \<times> string list) list \<Rightarrow> 'k \<Rightarrow> string \<Rightarrow> ('k \<times> string list) list" where
  "dict_append g k v =
     (case map_of g k of
        None \<Rightarrow> g @ [(k, [v])]
      | Some vs \<Rightarrow> AList.update k (vs @ [v]) g)"

definition dict_get :: "('k \<times> string list) list \<Rightarrow> 'k \<Rightarrow> string list" where
  "dict_get g k = (case map_of g k of None \<Rightarrow> [] | Some vs \<Rightarrow> vs)"

text \<open>
  The grouping loop, lines 39 to 46; the state is \<open>cu_ref_path\<close> and \<open>grouped_files\<close>.
\<close>

fun group_files ::
  "string \<Rightarrow> string list \<Rightarrow> string option \<times> (string \<times> string list) list
     \<Rightarrow> string option \<times> (string \<times> string list) list" where
  "group_files directory_path [] st = st"
| "group_files directory_path (filename # rest) (cu_ref_path, grouped_files) =
     group_files directory_path rest
       (if contains filename ''Cu'' then
          (Some (path_join directory_path filename), grouped_files)
        else if contains filename ''pH'' then
          (case search_ph filename of
             Some d \<Rightarrow>
               (cu_ref_path,
                dict_append grouped_files (''pH '' @ d) (path_join directory_path filename))
           | None \<Rightarrow> (cu_ref_path, grouped_files))
        else (cu_ref_path, grouped_files))"

definition markers_j :: "string list" where
  "markers_j = [''o'', ''s'', ''^'', ''D'', ''v'']"

text \<open>
  The two new columns and the series handed to \<open>ax.plot\<close> (lines 66 to 68 and 83 to 89):
  \<^verbatim>\<open>
  data['Time (min)'] = (data['Time (s)'] - data['Time (s)'].iloc[0]) / 60
  data['j (mA/cm2)'] = (data['WE(1).Current (A)'] * 1000) / ELECTRODE_AREA_CM2
  \<close>
\<close>

definition current_density_series :: "dataframe \<Rightarrow> exn + (column \<times> column)" where
  "current_density_series data =
     try_bind (get_column data time_col_s) (\<lambda>t.
     try_bind (get_column data time_col_s) (\<lambda>t'.
     try_bind (iloc0 t') (\<lambda>t0.
     try_bind (col_sub t t0) (\<lambda>shifted.
     try_bind (col_div shifted 60) (\<lambda>minutes.
     let data1 = set_column data ''Time (min)'' minutes in
     try_bind (get_column data1 current_col) (\<lambda>i.
     try_bind (col_mul i 1000) (\<lambda>milli.
     try_bind (col_div milli ELECTRODE_AREA_CM2) (\<lambda>j.
     let data2 = set_column data1 ''j (mA/cm2)'' j in
     try_bind (get_column data2 ''Time (min)'') (\<lambda>x.
     try_bind (get_column data2 ''j (mA/cm2)'') (\<lambda>y.
     Inr (x, y)))))))))))"

text \<open>The copper reference on one subplot, lines 62 to 71.\<close>

definition plot_reference :: "env \<Rightarrow> nat \<Rightarrow> string option \<Rightarrow> event list" where
  "plot_reference e ax cu_ref_path =
     (case cu_ref_path of
        None \<Rightarrow> []
      | Some p \<Rightarrow>
          if p = [] then []
          else
            (case pd_read_csv e p TAB of
               Inl x \<Rightarrow> [ReadCsv p TAB, Print (ReferenceError p x)]
             | Inr data_ref \<Rightarrow>
                 if has_column data_ref time_col_s \<and> has_column data_ref current_col then
                   (case current_density_series data_ref of
                      Inl x \<Rightarrow> [ReadCsv p TAB, Print (ReferenceError p x)]
                    | Inr (x, y) \<Rightarrow>
                        [ReadCsv p TAB,
                         Plot ax \<lparr>xdata = x, ydata = y, label = ''Cu Reference'',
                                  color = Some ''grey'', marker = None,
                                  linestyle = Some ''--''\<rparr>])
                 else [ReadCsv p TAB]))"

text \<open>One file of a pH group, lines 75 to 95, and the loop over the group.\<close>

definition plot_sample :: "env \<Rightarrow> nat \<Rightarrow> nat \<Rightarrow> string \<Rightarrow> event list \<times> nat" where
  "plot_sample e ax plot_index file_path =
     (let filename = basename file_path;
          lbl = (case search_ph_label filename of Some g \<Rightarrow> strip g | None \<Rightarrow> filename)
      in
      case pd_read_csv e file_path TAB of
        Inl x \<Rightarrow> ([ReadCsv file_path TAB, Print (ProcessingError filename x)], plot_index)
      | Inr data \<Rightarrow>
          if has_column data time_col_s \<and> has_column data current_col then
            (case current_density_series data of
               Inl x \<Rightarrow>
                 ([ReadCsv file_path TAB, Print (ProcessingError filename x)], plot_index)
             | Inr (x, y) \<Rightarrow>
                 ([ReadCsv file_path TAB,
                   Plot ax \<lparr>xdata = x, ydata = y, label = lbl, color = None,
                            marker = Some (markers_j ! (plot_index mod length markers_j)),
                            linestyle =
                              Some (linestyles ! (plot_index mod length linestyles))\<rparr>],
                  plot_index + 1))
          else ([ReadCsv file_path TAB, Print (MissingColumns filename)], plot_index))"

fun plot_samples :: "env \<Rightarrow> nat \<Rightarrow> nat \<Rightarrow> string list \<Rightarrow> event list" where
  "plot_samples e ax plot_index [] = []"
| "plot_samples e ax plot_index (file_path # rest) =
     (case plot_sample e ax plot_index file_path of
        (evs, plot_index') \<Rightarrow> evs @ plot_samples e ax plot_index' rest)"

text \<open>One turn of the loop over the pH groups, lines 57 to 101, and the loop.\<close>

definition plot_panel ::
  "env \<Rightarrow> axes \<Rightarrow> string option \<Rightarrow> (string \<times> string list) list \<Rightarrow> nat \<times> string
     \<Rightarrow> event list \<times> outcome" where
  "plot_panel e axs cu_ref_path grouped_files ik =
     (case ik of (i, ph_key) \<Rightarrow>
        (case axes_item axs (int i) of
           Inl x \<Rightarrow> ([], Raised x)
         | Inr ax \<Rightarrow>
             (plot_reference e ax cu_ref_path
                @ plot_samples e ax 0 (dict_get grouped_files ph_key)
                @ [FormatAxes ax (''Analysis for '' @ ph_key)],
              Returned)))"

fun plot_panels ::
  "env \<Rightarrow> axes \<Rightarrow> string option \<Rightarrow> (string \<times> string list) list \<Rightarrow> (nat \<times> string) list
     \<Rightarrow> event list \<times> outcome" where
  "plot_panels e axs cu_ref_path grouped_files [] = ([], Returned)"
| "plot_panels e axs cu_ref_path grouped_files (ik # rest) =
     then_run (plot_panel e axs cu_ref_path grouped_files ik)
       (plot_panels e axs cu_ref_path grouped_files rest)"

definition generate_ca_subplots :: "env \<Rightarrow> string \<Rightarrow> string \<Rightarrow> event list \<times> outcome" where
  "generate_ca_subplots e directory_path output_filename =
     (case os_listdir e directory_path of
        Inl x \<Rightarrow>
          if x = FileNotFoundError then ([Print (DirNotFound directory_path)], Returned)
          else ([], Raised x)
      | Inr names \<Rightarrow>
          let all_files = txt_files names;
              (cu_ref_path, grouped_files) = group_files directory_path all_files (None, []);
              ph_keys = sort (map fst grouped_files)
          in
          (case plt_subplots e (length ph_keys) of
             Inl x \<Rightarrow> ([], Raised x)
           | Inr axs \<Rightarrow>
               then_run
                 (plot_panels e axs cu_ref_path grouped_files (enumerate 0 ph_keys))
                 (case axes_item axs (- 1) of
                    Inl x \<Rightarrow> ([], Raised x)
                  | Inr ax \<Rightarrow> (save_figure e output_filename, Returned))))"


section \<open>plot\_lsv.py\<close>

definition chemicals :: "string list" where
  "chemicals = [''K2ReCl6'', ''KReO4'', ''NH4ReO4'']"

text \<open>A style of \<open>style_map\<close>: colour, marker and line style.\<close>

definition style_map :: "(string \<times> string \<times> string \<times> string) list" where
  "style_map =
     [(''pH 1'', ''red'', ''o'', ''-''),
      (''pH 4'', ''blue'', ''s'', ''--''),
      (''pH 6'', ''green'', ''^'', '':'')]"

definition default_style :: "string \<times> string \<times> string" where
  "default_style = (''black'', ''x'', ''-.'')"

definition potential_col :: string where
  "potential_col = ''Potential applied (V)''"

text \<open>\<open>s.split(c)\<close> for a separator of one character.\<close>

fun split_on :: "char \<Rightarrow> string \<Rightarrow> string list" where
  "split_on c [] = [[]]"
| "split_on c (x # xs) =
     (if x = c then [] # split_on c xs
      else (case split_on c xs of
              [] \<Rightarrow> [[x]]
            | w # ws \<Rightarrow> (x # w) # ws))"

text \<open>\<open>filename.split('_')[1]\<close>, with \<open>"Unknown pH"\<close> when there is no second field.\<close>

definition ph_value_of :: "string \<Rightarrow> string" where
  "ph_value_of filename =
     (case split_on (CHR ''_'') filename of
        _ # v # _ \<Rightarrow> v
      | _ \<Rightarrow> ''Unknown pH'')"

text \<open>\<open>(df['WE(1).Current (A)'] * 1000) / ELECTRODE_AREA_CM2\<close>\<close>

definition current_density :: "dataframe \<Rightarrow> exn + column" where
  "current_density df =
     try_bind (get_column df current_col) (\<lambda>i.
     try_bind (col_mul i 1000) (\<lambda>milli.
     col_div milli ELECTRODE_AREA_CM2))"

text \<open>The copper reference on one subplot, lines 37 to 46. Nothing here is in a \<open>try\<close>.\<close>

definition lsv_reference :: "env \<Rightarrow> nat \<Rightarrow> string \<Rightarrow> event list \<times> outcome" where
  "lsv_reference e ax cu_ref_path =
     (if os_path_exists e cu_ref_path then
        (case pd_read_csv e cu_ref_path TAB of
           Inl x \<Rightarrow> ([ReadCsv cu_ref_path TAB], Raised x)
         | Inr df_ref \<Rightarrow>
             (case current_density df_ref of
                Inl x \<Rightarrow> ([ReadCsv cu_ref_path TAB], Raised x)
              | Inr current_density_ref \<Rightarrow>
                  (case get_column df_ref potential_col of
                     Inl x \<Rightarrow> ([ReadCsv cu_ref_path TAB], Raised x)
                   | Inr v \<Rightarrow>
                       ([ReadCsv cu_ref_path TAB,
                         Plot ax \<lparr>xdata = v, ydata = current_density_ref,
                                  label = ''Reference Cu'', color = Some ''gray'',
                                  marker = None, linestyle = Some ''--''\<rparr>],
                        Returned))))
      else ([], Returned))"

text \<open>One file of a chemical, lines 54 to 72, and the loop over the files.\<close>

definition lsv_sample :: "env \<Rightarrow> nat \<Rightarrow> string \<Rightarrow> event list \<times> outcome" where
  "lsv_sample e ax file_path =
     (let filename = basename file_path;
          ph_value = ph_value_of filename;
          style = (case map_of style_map ph_value of Some s \<Rightarrow> s | None \<Rightarrow> default_style)
      in
      case pd_read_csv e file_path TAB of
        Inl x \<Rightarrow> ([ReadCsv file_path TAB], Raised x)
      | Inr df_chem \<Rightarrow>
          (case current_density df_chem of
             Inl x \<Rightarrow> ([ReadCsv file_path TAB], Raised x)
           | Inr current_density_chem \<Rightarrow>
               (case get_column df_chem potential_col of
                  Inl x \<Rightarrow> ([ReadCsv file_path TAB], Raised x)
                | Inr v \<Rightarrow>
                    ([ReadCsv file_path TAB,
                      Plot ax \<lparr>xdata = v, ydata = current_density_chem, label = ph_value,
                               color = Some (fst style), marker = Some (fst (snd style)),
                               linestyle = Some (snd (snd style))\<rparr>],
                     Returned))))"

fun lsv_samples :: "env \<Rightarrow> nat \<Rightarrow> string list \<Rightarrow> event list \<times> outcome" where
  "lsv_samples e ax [] = ([], Returned)"
| "lsv_samples e ax (file_path # rest) =
     then_run (lsv_sample e ax file_path) (lsv_samples e ax rest)"

text \<open>One turn of the loop over the chemicals, lines 35 to 78, and the loop.\<close>

definition lsv_panel :: "env \<Rightarrow> string \<Rightarrow> nat \<times> string \<Rightarrow> event list \<times> outcome" where
  "lsv_panel e data_directory ac =
     (case ac of (ax, chemical) \<Rightarrow>
        then_run (lsv_reference e ax (path_join data_directory ''LSV_Reference Cu''))
          (then_run
             (lsv_samples e ax
                (sort (glob_glob e (path_join data_directory (''LSV_pH*_'' @ chemical @ ''*'')))))
             ([FormatAxes ax chemical], Returned)))"

fun lsv_panels :: "env \<Rightarrow> string \<Rightarrow> (nat \<times> string) list \<Rightarrow> event list \<times> outcome" where
  "lsv_panels e data_directory [] = ([], Returned)"
| "lsv_panels e data_directory (ac # rest) =
     then_run (lsv_panel e data_directory ac) (lsv_panels e data_directory rest)"

text \<open>
  \<open>plt.subplots(1, 3)\<close> gives three subplots, paired with the three chemicals by \<open>zip\<close>.
  The final \<open>plt.savefig\<close> is not in a \<open>try\<close>.
\<close>

definition plot_lsv_data :: "env \<Rightarrow> event list \<times> outcome" where
  "plot_lsv_data e =
     (let data_directory = ''LSV/''; output_filename = ''lsv_comparison_plot.tiff'' in
      then_run (lsv_panels e data_directory (zip [0..<3] chemicals))
        (case fig_savefig e output_filename of
           Some x \<Rightarrow> ([], Raised x)
         | None \<Rightarrow> ([SaveFig output_filename, Print (Saved output_filename)], Returned)))"

section \<open>plot\_eis.py: load\_eis\_data\<close>

text \<open>
  The column name \<open>Z' (\<Omega>)\<close>. The letter omega lies above code point 255 and is
  written as its two bytes in UTF-8; column names are only compared with each other
  and tested for the suffix \<open>_y\<close>.
\<close>

definition z_real_col :: string where
  "z_real_col = ''Z'' @ [CHR 0x27] @ '' ('' @ [CHR 0xCE, CHR 0xA9] @ '')''"

text \<open>\<open>merged_df.loc[:, ~merged_df.columns.str.endswith('_y')]\<close>\<close>

definition drop_y_columns :: "dataframe \<Rightarrow> dataframe" where
  "drop_y_columns df = filter (\<lambda>(name, col). \<not> suffix ''_y'' name) df"

text \<open>The calls made and the value returned (\<open>None\<close> or a DataFrame).\<close>

definition load_eis_data :: "env \<Rightarrow> string list \<Rightarrow> event list \<times> dataframe option" where
  "load_eis_data e file_list =
     (case file_list of
        [f0] \<Rightarrow>
          (case pd_read_csv e f0 SEMICOLON of
             Inl x \<Rightarrow> ([ReadCsv f0 SEMICOLON, Print (LoadError file_list x)], None)
           | Inr df \<Rightarrow> ([ReadCsv f0 SEMICOLON], Some df))
      | [f0, f1] \<Rightarrow>
          (case pd_read_csv e f0 SEMICOLON of
             Inl x \<Rightarrow> ([ReadCsv f0 SEMICOLON, Print (LoadError file_list x)], None)
           | Inr df1 \<Rightarrow>
               (case pd_read_csv e f1 SEMICOLON of
                  Inl x \<Rightarrow>
                    ([ReadCsv f0 SEMICOLON, ReadCsv f1 SEMICOLON,
                      Print (LoadError file_list x)], None)
                | Inr df2 \<Rightarrow>
                    (case (if \<not> has_column df2 z_real_col then pd_merge e df1 df2
                           else pd_merge e df2 df1) of
                       Inl x \<Rightarrow>
                         ([ReadCsv f0 SEMICOLON, ReadCsv f1 SEMICOLON,
                           Print (LoadError file_list x)], None)
                     | Inr merged_df \<Rightarrow>
                         ([ReadCsv f0 SEMICOLON, ReadCsv f1 SEMICOLON],
                          Some (drop_y_columns merged_df)))))
      | _ \<Rightarrow> ([], None))"


section \<open>plot\_eis.py: grouping and plotting\<close>

text \<open>\<open>d[key].extend(values)\<close> on a \<open>defaultdict(list)\<close>.\<close>

definition dict_extend :: "('k \<times> string list) list \<Rightarrow> 'k \<Rightarrow> string list \<Rightarrow> ('k \<times> string list) list" where
  "dict_extend g k vs =
     (case map_of g k of
        None \<Rightarrow> g @ [(k, vs)]
      | Some old \<Rightarrow> AList.update k (old @ vs) g)"

text \<open>
  The first loop of \<open>group_files_by_experiment\<close>: the paths of each experiment, under
  its id. A dictionary that is not empty counts as true.
\<close>

fun collect_experiments ::
  "string list \<Rightarrow> (string \<times> string list) list \<Rightarrow> (string \<times> string list) list" where
  "collect_experiments [] experiment_files = experiment_files"
| "collect_experiments (filepath # rest) experiment_files =
     collect_experiments rest
       (case parse_filename filepath of
          None \<Rightarrow> experiment_files
        | Some parsed_info \<Rightarrow> dict_append experiment_files (info_id parsed_info) filepath)"

text \<open>
  The second loop: \<open>grouped_plots[ph][condition][chemical]\<close> is kept under the key
  \<open>(ph, condition, chemical)\<close>. \<open>file_list[0]\<close> raises on an empty list.
\<close>

fun group_experiments ::
  "string list list \<Rightarrow> ((string \<times> string \<times> string) \<times> string list) list
     \<Rightarrow> exn + ((string \<times> string \<times> string) \<times> string list) list" where
  "group_experiments [] grouped_plots = Inr grouped_plots"
| "group_experiments (file_list # rest) grouped_plots =
     (case file_list of
        [] \<Rightarrow> Inl IndexError
      | first # _ \<Rightarrow>
          group_experiments rest
            (case parse_filename first of
               None \<Rightarrow> grouped_plots
             | Some parsed_info \<Rightarrow>
                 dict_extend grouped_plots
                   (info_ph parsed_info, info_condition parsed_info, info_chemical parsed_info)
                   file_list))"

definition group_files_by_experiment ::
  "env \<Rightarrow> string \<Rightarrow> exn + ((string \<times> string \<times> string) \<times> string list) list" where
  "group_files_by_experiment e data_dir =
     (let experiment_files = collect_experiments (glob_glob e (path_join data_dir ''*.txt'')) []
      in group_experiments (map snd experiment_files) [])"

text \<open>\<open>sorted(grouped_data[ph][condition].items())\<close>: the chemicals of one panel, in order.\<close>

definition experiments_to_plot ::
  "((string \<times> string \<times> string) \<times> string list) list \<Rightarrow> string \<Rightarrow> string
     \<Rightarrow> (string \<times> string list) list" where
  "experiments_to_plot grouped_data p c =
     sort_key fst
       (map (\<lambda>((p', c', chem), file_list). (chem, file_list))
          (filter (\<lambda>((p', c', chem), file_list). p' = p \<and> c' = c) grouped_data))"

definition ROWS :: "string list" where
  "ROWS = [''pH 1'', ''pH 4'', ''pH 6'']"

definition COLS :: "string list" where
  "COLS = [''OCP'', ''CAP'', ''FAR'']"

definition unique_chemicals :: "string list" where
  "unique_chemicals = sort [''K2ReCl6'', ''KReO4'', ''NH4ReO4'', ''Cu'', ''KReO4 + Na2SO4'']"

definition eis_markers :: "string list" where
  "eis_markers = [''o'', ''s'', ''^'', ''D'', ''v'', ''p'', ''*'', ''X'']"

fun index_of :: "'a \<Rightarrow> 'a list \<Rightarrow> nat option" where
  "index_of x [] = None"
| "index_of x (y # ys) = (if x = y then Some 0 else map_option Suc (index_of x ys))"

text \<open>
  \<open>STYLE_MAP.get(chemical, DEFAULT_STYLE)\<close>: colour, marker and line style. The colour
  of the i-th chemical is the i-th of five colours taken from the viridis colour map,
  written \<open>viridis\<close> followed by \<open>i\<close> here; its line style is the string \<open>None\<close>.
\<close>

definition eis_style :: "string \<Rightarrow> string \<times> string \<times> string option" where
  "eis_style chem =
     (case index_of chem unique_chemicals of
        Some i \<Rightarrow>
          (''viridis'' @ [''01234'' ! i], eis_markers ! (i mod length eis_markers), Some ''None'')
      | None \<Rightarrow> (''grey'', ''x'', None))"

text \<open>The other column names; the degree sign is written as its two bytes in UTF-8.\<close>

definition z_imag_col :: string where
  "z_imag_col = ''-Z'' @ [CHR 0x27, CHR 0x27] @ '' ('' @ [CHR 0xCE, CHR 0xA9] @ '')''"

definition z_abs_col :: string where
  "z_abs_col = ''Z ('' @ [CHR 0xCE, CHR 0xA9] @ '')''"

definition frequency_col :: string where
  "frequency_col = ''Frequency (Hz)''"

definition phase_col :: string where
  "phase_col = ''-Phase ('' @ [CHR 0xC2, CHR 0xB0] @ '')''"

text \<open>\<open>ax.plot(df[xcol], df[ycol], label=chemical, **style)\<close>; a missing column raises.\<close>

definition plot_columns ::
  "nat \<Rightarrow> dataframe \<Rightarrow> string \<Rightarrow> string \<Rightarrow> string \<Rightarrow> event list \<times> outcome" where
  "plot_columns ax df xcol ycol chem =
     (case get_column df xcol of
        Inl x \<Rightarrow> ([], Raised x)
      | Inr xs \<Rightarrow>
          (case get_column df ycol of
             Inl x \<Rightarrow> ([], Raised x)
           | Inr ys \<Rightarrow>
               (let style = eis_style chem in
                ([Plot ax \<lparr>xdata = xs, ydata = ys, label = chem, color = Some (fst style),
                           marker = Some (fst (snd style)), linestyle = snd (snd style)\<rparr>],
                 Returned))))"

text \<open>
  The subplot of row \<open>i\<close> and column \<open>j\<close> has the index \<open>3 * i + j\<close> in the Nyquist
  figure, that plus 9 in the first Bode figure and that plus 18 in the second.
\<close>

definition plot_experiment ::
  "env \<Rightarrow> nat \<Rightarrow> string \<times> string list \<Rightarrow> event list \<times> outcome" where
  "plot_experiment e panel cf =
     (case cf of (chem, file_list) \<Rightarrow>
        (case load_eis_data e file_list of
           (evs, None) \<Rightarrow> (evs, Returned)
         | (evs, Some df) \<Rightarrow>
             then_run (evs, Returned)
               (then_run (plot_columns panel df z_real_col z_imag_col chem)
                  (then_run (plot_columns (9 + panel) df frequency_col z_abs_col chem)
                     (plot_columns (18 + panel) df frequency_col phase_col chem)))))"

fun plot_experiments ::
  "env \<Rightarrow> nat \<Rightarrow> (string \<times> string list) list \<Rightarrow> event list \<times> outcome" where
  "plot_experiments e panel [] = ([], Returned)"
| "plot_experiments e panel (cf # rest) =
     then_run (plot_experiment e panel cf) (plot_experiments e panel rest)"

text \<open>One turn of the inner loop, lines 145 to 185.\<close>

definition plot_cell ::
  "env \<Rightarrow> ((string \<times> string \<times> string) \<times> string list) list
     \<Rightarrow> (nat \<times> string) \<times> (nat \<times> string) \<Rightarrow> event list \<times> outcome" where
  "plot_cell e grouped_data cell =
     (case cell of ((i, p), (j, c)) \<Rightarrow>
        (let panel = 3 * i + j; title = p @ '', '' @ c in
         then_run (plot_experiments e panel (experiments_to_plot grouped_data p c))
           ([FormatAxes panel title, FormatAxes (9 + panel) title,
             FormatAxes (18 + panel) title], Returned)))"

fun plot_cells ::
  "env \<Rightarrow> ((string \<times> string \<times> string) \<times> string list) list
     \<Rightarrow> ((nat \<times> string) \<times> (nat \<times> string)) list \<Rightarrow> event list \<times> outcome" where
  "plot_cells e grouped_data [] = ([], Returned)"
| "plot_cells e grouped_data (cell # rest) =
     then_run (plot_cell e grouped_data cell) (plot_cells e grouped_data rest)"

text \<open>The three \<open>savefig\<close> calls and the last \<open>print\<close>; none is in a \<open>try\<close>.\<close>

fun save_all :: "env \<Rightarrow> string list \<Rightarrow> event list \<times> outcome" where
  "save_all e [] = ([Print Generated], Returned)"
| "save_all e (f # fs) =
     (case fig_savefig e f of
        Some x \<Rightarrow> ([], Raised x)
      | None \<Rightarrow> then_run ([SaveFig f], Returned) (save_all e fs))"

definition plot_eis_data :: "env \<Rightarrow> event list \<times> outcome" where
  "plot_eis_data e =
     (case group_files_by_experiment e ''EIS/'' of
        Inl x \<Rightarrow> ([], Raised x)
      | Inr grouped_data \<Rightarrow>
          then_run
            (plot_cells e grouped_data
               (concat (map (\<lambda>ip. map (\<lambda>jc. (ip, jc)) (enumerate 0 COLS)) (enumerate 0 ROWS))))
            (save_all e [''eis_nyquist_plots.tiff'', ''eis_bode1_plots.tiff'',
                         ''eis_bode2_plots.tiff'']))"


section \<open>The file-name form of the specification\<close>







section \<open>Reading a run\<close>

text \<open>The reads, the curves and the saved files among the calls of a run.\<close>

definition is_read :: "event \<Rightarrow> bool" where
  "is_read ev = (case ev of ReadCsv p s \<Rightarrow> True | _ \<Rightarrow> False)"

definition is_save :: "event \<Rightarrow> bool" where
  "is_save ev = (case ev of SaveFig p \<Rightarrow> True | _ \<Rightarrow> False)"

fun curves :: "event list \<Rightarrow> curve list" where
  "curves [] = []"
| "curves (Plot ax c # evs) = c # curves evs"
| "curves (ev # evs) = curves evs"

text \<open>A file name that \<open>generate_styled_plot\<close> gives a label to.\<close>

definition recognised :: "string \<Rightarrow> bool" where
  "recognised filename =
     (case plot_label filename of None \<Rightarrow> False | Some lbl \<Rightarrow> lbl \<noteq> [])"

text \<open>
  The time values of the specification: shifted to start at the first value, and
  divided by 60.
\<close>

definition minutes_since_start :: "real list \<Rightarrow> real list" where
  "minutes_since_start ts = map (\<lambda>t. (t - hd ts) / 60) ts"

text \<open>
  The current density of the specification, row by row: \<open>y\<close> holds, for each row of
  the current column \<open>cur\<close>, the current times 1000 over the electrode area. A column
  of strings can only be one without rows.
\<close>

definition density_column :: "column \<Rightarrow> column \<Rightarrow> bool" where
  "density_column cur y =
     (case cur of
        NumCol cs \<Rightarrow>
          (\<exists>js. y = NumCol js \<and> length js = length cs \<and>
                (\<forall>k < length cs. js ! k = cs ! k * 1000 / ELECTRODE_AREA_CM2))
      | ObjCol ss \<Rightarrow> ss = [] \<and> y = ObjCol [])"

text \<open>
  What the claims say of a curve: its x series is the time column of a file read with
  tabs, in minutes since its first value; its y series is the current density of the
  current column of such a file.
\<close>

definition time_normalised :: "env \<Rightarrow> curve \<Rightarrow> bool" where
  "time_normalised e c =
     (\<exists>p data ts. pd_read_csv e p TAB = Inr data \<and>
        map_of data time_col_s = Some (NumCol ts) \<and> ts \<noteq> [] \<and>
        xdata c = NumCol (minutes_since_start ts))"

definition density_plotted :: "env \<Rightarrow> curve \<Rightarrow> bool" where
  "density_plotted e c =
     (\<exists>p data cur. pd_read_csv e p TAB = Inr data \<and>
        map_of data current_col = Some cur \<and> density_column cur (ydata c))"

text \<open>A call that reads with tabs if it reads, and plots a curve with \<open>P\<close> if it plots.\<close>

definition event_ok :: "(curve \<Rightarrow> bool) \<Rightarrow> event \<Rightarrow> bool" where
  "event_ok P ev =
     (case ev of ReadCsv p s \<Rightarrow> s = TAB | Plot ax c \<Rightarrow> P c | _ \<Rightarrow> True)"

definition caj_curve :: "env \<Rightarrow> curve \<Rightarrow> bool" where
  "caj_curve e c = (time_normalised e c \<and> density_plotted e c)"

text \<open>The sorted keys of the pH groups that \<open>generate_ca_subplots\<close> finds for a listing.\<close>

definition ph_keys_of :: "string \<Rightarrow> string list \<Rightarrow> string list" where
  "ph_keys_of directory_path names =
     sort (map fst (snd (group_files directory_path (txt_files names) (None, []))))"

text \<open>The paths held by the pH groups.\<close>

definition group_paths :: "(string \<times> string list) list \<Rightarrow> string set" where
  "group_paths g = set (concat (map snd g))"

text \<open>A call that reads with the separator \<open>sep\<close>, if it reads.\<close>

definition reads_with :: "char \<Rightarrow> event \<Rightarrow> bool" where
  "reads_with sep ev = (case ev of ReadCsv p s \<Rightarrow> s = sep | _ \<Rightarrow> True)"


section \<open>A directory of measurements\<close>

text \<open>
  A directory \<open>CAs/\<close> with three measurement files, a file with another ending and a
  text file of no recognised name. One measurement cannot be parsed, one lacks the
  charge column. \<open>example_env_shuffled\<close> lists the same directory in another order.
\<close>

definition example_names :: "string list" where
  "example_names =
     [''b_pH4_KReO4.txt'', ''Cu_ref.txt'', ''a_pH1_K2ReCl6.txt'', ''notes.md'', ''zz.txt'']"

definition example_frame :: dataframe where
  "example_frame =
     [(''Time (s)'', NumCol [120, 180, 300]),
      (''WE(1).Charge (C)'', NumCol [1, 2, 4]),
      (''WE(1).Current (A)'', NumCol [2, 3, 5]),
      (''Potential applied (V)'', NumCol [0, 1, 2])]"

text \<open>
  The directory \<open>EIS/\<close> holds one experiment split into a Nyquist file and a Bode file,
  both with a time column,
  and one experiment in a single file that cannot be parsed.
\<close>

definition example_nyquist :: dataframe where
  "example_nyquist =
     [(frequency_col, NumCol [10, 100]), (''Time (s)'', NumCol [0, 1]),
      (z_real_col, NumCol [5, 6]), (z_imag_col, NumCol [1, 2])]"

definition example_bode :: dataframe where
  "example_bode =
     [(frequency_col, NumCol [10, 100]), (''Time (s)'', NumCol [0, 1]),
      (z_abs_col, NumCol [7, 8]), (phase_col, NumCol [30, 40])]"

definition example_read :: "string \<Rightarrow> char \<Rightarrow> exn + dataframe" where
  "example_read p s =
     (if p = ''CAs/a_pH1_K2ReCl6.txt'' then Inl (OtherException ''ParserError'')
      else if p = ''CAs/Cu_ref.txt'' then Inr [(''Time (s)'', NumCol [0, 60]),
                                              (''WE(1).Current (A)'', NumCol [1, 1])]
      else if p = ''EIS/1_KReO4 pH 1 OCP (Nyquist).txt'' then Inr example_nyquist
      else if p = ''EIS/1_KReO4 pH 1 OCP (Bode).txt'' then Inr example_bode
      else if p = ''EIS/2_K2ReCl6 pH 4 FAR (Nyquist and Bode).txt''
        then Inl (OtherException ''ParserError'')
      else Inr example_frame)"

text \<open>
  A merge on the frequency, for files with the same frequencies: the columns of the left
  frame, then those of the right one but the frequency, with the suffix \<open>_y\<close> on a
  name that the left frame has already.
\<close>

definition example_merge :: "dataframe \<Rightarrow> dataframe \<Rightarrow> exn + dataframe" where
  "example_merge l r =
     Inr (l @ map (\<lambda>(n, c). (if n \<in> set (map fst l) then n @ ''_y'' else n, c))
                (filter (\<lambda>(n, c). n \<noteq> frequency_col) r))"

definition example_env :: env where
  "example_env =
     \<lparr>os_listdir = (\<lambda>d. if d = ''CAs/'' then Inr example_names else Inl FileNotFoundError),
      pd_read_csv = example_read,
      os_path_exists = (\<lambda>p. p = ''LSV/LSV_Reference Cu''),
      glob_glob =
        (\<lambda>p. if p = ''LSV/LSV_pH*_KReO4*'' then [''LSV/LSV_pH 4_KReO4.txt'']
             else if p = ''EIS/*.txt''
               then [''EIS/1_KReO4 pH 1 OCP (Nyquist).txt'',
                     ''EIS/2_K2ReCl6 pH 4 FAR (Nyquist and Bode).txt'',
                     ''EIS/1_KReO4 pH 1 OCP (Bode).txt'']
             else []),
      pd_merge = example_merge,
      fig_savefig = (\<lambda>p. None),
      plt_subplots_zero_rows = Some ValueError\<rparr>"

definition example_env_shuffled :: env where
  "example_env_shuffled = example_env\<lparr>os_listdir := (\<lambda>d. Inr (rev example_names))\<rparr>"

text \<open>The directory with one pH group only, and with none.\<close>

definition example_env_one_group :: env where
  "example_env_one_group =
     example_env\<lparr>os_listdir := (\<lambda>d. Inr [''a_pH1_K2.txt'', ''Cu_ref.txt''])\<rparr>"

definition example_env_no_group :: env where
  "example_env_no_group = example_env\<lparr>os_listdir := (\<lambda>d. Inr [''Cu_ref.txt''])\<rparr>"


section \<open>parse\_filename\<close>















section \<open>generate\_styled\_plot\<close>

lemmas label_defs = plot_label_def match_ph_def match_ph_label_def is_digit_def is_space_def
  strip_def newline_def

lemmas frame_defs = has_column_def get_column_def set_column_def iloc0_def col_sub_def
  col_mul_def col_div_def try_bind_def time_col_s_def charge_col_def current_col_def

lemma plot_file_cases:
  "(\<not> recognised f \<and> plot_file e d i f = ([Print (Skipping f)], i)) \<or>
   (recognised f \<and>
     ((\<exists>m. plot_file e d i f = ([ReadCsv (path_join d f) TAB, Print m], i)) \<or>
      (\<exists>x y lbl. plot_file e d i f =
         ([ReadCsv (path_join d f) TAB,
           Plot 0 \<lparr>xdata = x, ydata = y, label = lbl, color = None,
                   marker = Some (markers ! (i mod 10)),
                   linestyle = Some (linestyles ! (i mod 4))\<rparr>], i + 1))))"
  by (auto simp: plot_file_def recognised_def Let_def markers_def linestyles_def
      split: option.splits sum.splits prod.splits)

lemma plot_files_reads:
  "filter is_read (plot_files e d i fs) =
     map (\<lambda>f. ReadCsv (path_join d f) TAB) (filter recognised fs)"
proof (induction fs arbitrary: i)
  case Nil
  then show ?case by simp
next
  case (Cons f fs)
  obtain evs i' where pf: "plot_file e d i f = (evs, i')" by (cases "plot_file e d i f")
  with plot_file_cases[of f e d i]
  have "filter is_read evs = (if recognised f then [ReadCsv (path_join d f) TAB] else [])"
    by (auto simp: is_read_def)
  with pf Cons.IH[of i'] show ?case by simp
qed

lemma plot_file_env:
  assumes "pd_read_csv e1 = pd_read_csv e2"
  shows "plot_file e1 d i f = plot_file e2 d i f"
  by (simp only: plot_file_def assms)

lemma plot_files_env:
  assumes "pd_read_csv e1 = pd_read_csv e2"
  shows "plot_files e1 d i fs = plot_files e2 d i fs"
  by (induction fs arbitrary: i) (simp_all add: plot_file_env[OF assms])

lemma txt_files_permutation:
  assumes "set names1 = set names2" "distinct names1" "distinct names2"
  shows "txt_files names1 = txt_files names2"
proof -
  from assms have "mset names1 = mset names2"
    by (simp add: set_eq_iff_mset_eq_distinct)
  then have "mset (filter (\<lambda>f. suffix ''.txt'' f) names1)
           = mset (filter (\<lambda>f. suffix ''.txt'' f) names2)"
    by simp
  then show ?thesis
    unfolding txt_files_def by (metis properties_for_sort sorted_sort mset_sort)
qed

lemma curves_append: "curves (xs @ ys) = curves xs @ curves ys"
  by (induction xs rule: curves.induct) simp_all

lemma curves_save_figure: "curves (save_figure e out) = []"
  by (simp add: save_figure_def split: option.splits)

lemma reads_save_figure: "filter is_read (save_figure e out) = []"
  by (simp add: save_figure_def is_read_def split: option.splits)

lemma plot_files_styles:
  "map (\<lambda>c. (marker c, linestyle c)) (curves (plot_files e d i fs)) =
     map (\<lambda>n. (Some (markers ! (n mod 10)), Some (linestyles ! (n mod 4))))
       [i..<i + length (curves (plot_files e d i fs))]"
proof (induction fs arbitrary: i)
  case Nil
  then show ?case by simp
next
  case (Cons f fs)
  from plot_file_cases[of f e d i]
  consider (quiet) evs where "plot_file e d i f = (evs, i)" "curves evs = []"
    | (plotted) p c where "plot_file e d i f = ([ReadCsv p TAB, Plot 0 c], i + 1)"
        "marker c = Some (markers ! (i mod 10))" "linestyle c = Some (linestyles ! (i mod 4))"
    by fastforce
  then show ?case
  proof cases
    case quiet
    with Cons.IH[of i] show ?thesis by (simp add: curves_append)
  next
    case plotted
    let ?n = "length (curves (plot_files e d (i + 1) fs))"
    have "[i..<i + Suc ?n] = i # [i + 1..<i + 1 + ?n]"
      by (subst upt_rec) simp
    with plotted Cons.IH[of "i + 1"] show ?thesis by (simp add: curves_append)
  qed
qed

lemma plot_file_failure:
  assumes "recognised f"
  shows "pd_read_csv e (path_join d f) TAB = Inl x \<Longrightarrow>
           plot_file e d i f = ([ReadCsv (path_join d f) TAB, Print (ProcessingError f x)], i)"
    and "pd_read_csv e (path_join d f) TAB = Inr data \<Longrightarrow>
         \<not> (has_column data time_col_s \<and> has_column data charge_col) \<Longrightarrow>
           plot_file e d i f = ([ReadCsv (path_join d f) TAB, Print (MissingColumns f)], i)"
    and "pd_read_csv e (path_join d f) TAB = Inr data \<Longrightarrow>
         has_column data time_col_s \<and> has_column data charge_col \<Longrightarrow>
         normalise_time data = Inl x \<Longrightarrow>
           plot_file e d i f = ([ReadCsv (path_join d f) TAB, Print (ProcessingError f x)], i)"
  using assms
  by (auto simp: plot_file_def recognised_def Let_def split: option.splits)

lemma example_txt_files:
  "txt_files example_names = [''Cu_ref.txt'', ''a_pH1_K2ReCl6.txt'', ''b_pH4_KReO4.txt'', ''zz.txt'']"
  by (simp add: txt_files_def example_names_def suffix_def)

lemma example_styled_run:
  "generate_styled_plot example_env ''CAs/'' ''ca.tiff'' =
     ([ReadCsv ''CAs/Cu_ref.txt'' TAB, Print (MissingColumns ''Cu_ref.txt''),
       ReadCsv ''CAs/a_pH1_K2ReCl6.txt'' TAB,
       Print (ProcessingError ''a_pH1_K2ReCl6.txt'' (OtherException ''ParserError'')),
       ReadCsv ''CAs/b_pH4_KReO4.txt'' TAB,
       Plot 0 \<lparr>xdata = NumCol [0, 1, 3], ydata = NumCol [1, 2, 4], label = ''KReO4 (pH 4)'',
               color = None, marker = Some ''o'', linestyle = Some ''-''\<rparr>,
       Print (Skipping ''zz.txt''),
       FormatAxes 0 ''Combined Chronoamperometry Analysis (Time Normalised)'',
       SaveFig ''ca.tiff'', Print (Saved ''ca.tiff'')], Returned)"
  by (simp add: generate_styled_plot_def example_env_def example_txt_files plot_file_def
      label_defs path_join_def example_read_def example_frame_def frame_defs normalise_time_def
      markers_def linestyles_def save_figure_def)

text \<open>
  C5. When the directory can be listed, \<open>generate_styled_plot\<close> returns without an
  exception; its calls are those of the loop over the files, then the formatting of the
  figure and the attempt to save it. Every recognised file is read, in order, whatever
  happened to the files before it. A recognised file that cannot be read, that lacks a
  required column or whose processing raises, gives its read and one message, and leaves
  \<open>plot_index\<close> as it was.
\<close>

theorem generate_styled_plot_continues:
  assumes "os_listdir e d = Inr names"
  shows "snd (generate_styled_plot e d out) = Returned \<and>
         fst (generate_styled_plot e d out) =
           plot_files e d 0 (txt_files names)
             @ [FormatAxes 0 ''Combined Chronoamperometry Analysis (Time Normalised)'']
             @ save_figure e out \<and>
         filter is_read (plot_files e d 0 (txt_files names)) =
           map (\<lambda>f. ReadCsv (path_join d f) TAB) (filter recognised (txt_files names)) \<and>
         (\<forall>f i x data. recognised f \<longrightarrow>
            (pd_read_csv e (path_join d f) TAB = Inl x \<longrightarrow>
               plot_file e d i f =
                 ([ReadCsv (path_join d f) TAB, Print (ProcessingError f x)], i)) \<and>
            (pd_read_csv e (path_join d f) TAB = Inr data \<and>
             \<not> (has_column data time_col_s \<and> has_column data charge_col) \<longrightarrow>
               plot_file e d i f =
                 ([ReadCsv (path_join d f) TAB, Print (MissingColumns f)], i)) \<and>
            (pd_read_csv e (path_join d f) TAB = Inr data \<and>
             has_column data time_col_s \<and> has_column data charge_col \<and>
             normalise_time data = Inl x \<longrightarrow>
               plot_file e d i f =
                 ([ReadCsv (path_join d f) TAB, Print (ProcessingError f x)], i)))"
proof -
  have run: "generate_styled_plot e d out =
      (plot_files e d 0 (txt_files names)
         @ [FormatAxes 0 ''Combined Chronoamperometry Analysis (Time Normalised)'']
         @ save_figure e out, Returned)"
    using assms by (simp add: generate_styled_plot_def)
  show ?thesis
    using run plot_files_reads[of e d 0 "txt_files names"] plot_file_failure
    by simp
qed

text \<open>C5 on the example directory, where one file raises and one lacks a column.\<close>

theorem generate_styled_plot_continues_witness:
  "os_listdir example_env ''CAs/'' = Inr example_names \<and>
   snd (generate_styled_plot example_env ''CAs/'' ''ca.tiff'') = Returned \<and>
   filter is_read (plot_files example_env ''CAs/'' 0 (txt_files example_names)) =
     [ReadCsv ''CAs/Cu_ref.txt'' TAB, ReadCsv ''CAs/a_pH1_K2ReCl6.txt'' TAB,
      ReadCsv ''CAs/b_pH4_KReO4.txt'' TAB] \<and>
   fst (generate_styled_plot example_env ''CAs/'' ''ca.tiff'') =
     [ReadCsv ''CAs/Cu_ref.txt'' TAB, Print (MissingColumns ''Cu_ref.txt''),
      ReadCsv ''CAs/a_pH1_K2ReCl6.txt'' TAB,
      Print (ProcessingError ''a_pH1_K2ReCl6.txt'' (OtherException ''ParserError'')),
      ReadCsv ''CAs/b_pH4_KReO4.txt'' TAB,
      Plot 0 \<lparr>xdata = NumCol [0, 1, 3], ydata = NumCol [1, 2, 4], label = ''KReO4 (pH 4)'',
              color = None, marker = Some ''o'', linestyle = Some ''-''\<rparr>,
      Print (Skipping ''zz.txt''),
      FormatAxes 0 ''Combined Chronoamperometry Analysis (Time Normalised)'',
      SaveFig ''ca.tiff'', Print (Saved ''ca.tiff'')]"
proof -
  have h: "os_listdir example_env ''CAs/'' = Inr example_names"
    by (simp add: example_env_def)
  have rec: "filter recognised (txt_files example_names) =
      [''Cu_ref.txt'', ''a_pH1_K2ReCl6.txt'', ''b_pH4_KReO4.txt'']"
    by (simp add: example_txt_files recognised_def label_defs)
  from generate_styled_plot_continues[OF h, of "''ca.tiff''"] rec
  have "snd (generate_styled_plot example_env ''CAs/'' ''ca.tiff'') = Returned \<and>
        filter is_read (plot_files example_env ''CAs/'' 0 (txt_files example_names)) =
          [ReadCsv ''CAs/Cu_ref.txt'' TAB, ReadCsv ''CAs/a_pH1_K2ReCl6.txt'' TAB,
           ReadCsv ''CAs/b_pH4_KReO4.txt'' TAB]"
    by (simp add: path_join_def)
  with h show ?thesis by (simp add: example_styled_run)
qed

text \<open>
  C6. When the directory does not exist, both chronoamperometry functions print the
  error message and return: no file is read and no figure is saved.
\<close>

theorem missing_directory_no_output:
  assumes "os_listdir e d = Inl FileNotFoundError"
  shows "generate_styled_plot e d out = ([Print (DirNotFound d)], Returned) \<and>
         generate_ca_subplots e d out = ([Print (DirNotFound d)], Returned) \<and>
         filter is_read (fst (generate_styled_plot e d out)) = [] \<and>
         filter is_save (fst (generate_styled_plot e d out)) = [] \<and>
         filter is_read (fst (generate_ca_subplots e d out)) = [] \<and>
         filter is_save (fst (generate_ca_subplots e d out)) = []"
  using assms
  by (simp add: generate_styled_plot_def generate_ca_subplots_def is_read_def is_save_def)

text \<open>C6 on a directory that the example does not have.\<close>

theorem missing_directory_no_output_witness:
  "os_listdir example_env ''nowhere/'' = Inl FileNotFoundError \<and>
   generate_styled_plot example_env ''nowhere/'' ''ca.tiff''
     = ([Print (DirNotFound ''nowhere/'')], Returned) \<and>
   generate_ca_subplots example_env ''nowhere/'' ''ca.tiff''
     = ([Print (DirNotFound ''nowhere/'')], Returned)"
proof -
  have h: "os_listdir example_env ''nowhere/'' = Inl FileNotFoundError"
    by (simp add: example_env_def)
  from missing_directory_no_output[OF h, of "''ca.tiff''"] h show ?thesis by simp
qed

text \<open>
  C7. The files are processed in sorted order of their names: the names with the ending
  \<open>.txt\<close>, sorted, and the reads follow that order. Two runs whose listings hold the same
  names, in any order, and whose files read alike make the same calls, so give the same
  labels and styles; the n-th curve plotted has marker \<open>n mod 10\<close> and line style
  \<open>n mod 4\<close>.
\<close>

theorem generate_styled_plot_order_independent:
  assumes "os_listdir e1 d = Inr names1" "os_listdir e2 d = Inr names2"
    and "set names1 = set names2" "distinct names1" "distinct names2"
    and "pd_read_csv e1 = pd_read_csv e2" "fig_savefig e1 = fig_savefig e2"
  shows "sorted (txt_files names1) \<and>
         set (txt_files names1) = {f \<in> set names1. suffix ''.txt'' f} \<and>
         filter is_read (fst (generate_styled_plot e1 d out)) =
           map (\<lambda>f. ReadCsv (path_join d f) TAB) (filter recognised (txt_files names1)) \<and>
         generate_styled_plot e1 d out = generate_styled_plot e2 d out \<and>
         map (\<lambda>c. (marker c, linestyle c)) (curves (fst (generate_styled_plot e1 d out))) =
           map (\<lambda>n. (Some (markers ! (n mod 10)), Some (linestyles ! (n mod 4))))
             [0..<length (curves (fst (generate_styled_plot e1 d out)))]"
proof -
  let ?fmt = "FormatAxes 0 ''Combined Chronoamperometry Analysis (Time Normalised)''"
  have run1: "generate_styled_plot e1 d out =
      (plot_files e1 d 0 (txt_files names1) @ [?fmt] @ save_figure e1 out, Returned)"
    using assms(1) by (simp add: generate_styled_plot_def)
  have run2: "generate_styled_plot e2 d out =
      (plot_files e2 d 0 (txt_files names2) @ [?fmt] @ save_figure e2 out, Returned)"
    using assms(2) by (simp add: generate_styled_plot_def)
  have order: "sorted (txt_files names1)"
    "set (txt_files names1) = {f \<in> set names1. suffix ''.txt'' f}"
    by (simp_all add: txt_files_def)
  have reads: "filter is_read (fst (generate_styled_plot e1 d out)) =
      map (\<lambda>f. ReadCsv (path_join d f) TAB) (filter recognised (txt_files names1))"
    by (simp add: run1 plot_files_reads reads_save_figure is_read_def)
  have same: "generate_styled_plot e1 d out = generate_styled_plot e2 d out"
    using txt_files_permutation[OF assms(3,4,5)] plot_files_env[OF assms(6)] assms(7)
    by (simp add: run1 run2 save_figure_def)
  have crv: "curves (fst (generate_styled_plot e1 d out)) =
      curves (plot_files e1 d 0 (txt_files names1))"
    by (simp add: run1 curves_append curves_save_figure)
  have styles: "map (\<lambda>c. (marker c, linestyle c)) (curves (fst (generate_styled_plot e1 d out))) =
           map (\<lambda>n. (Some (markers ! (n mod 10)), Some (linestyles ! (n mod 4))))
             [0..<length (curves (fst (generate_styled_plot e1 d out)))]"
    unfolding crv using plot_files_styles[of e1 d 0 "txt_files names1"] by simp
  from order reads same styles show ?thesis by blast
qed

text \<open>C7 on the example directory, listed in two orders.\<close>

theorem generate_styled_plot_order_independent_witness:
  "os_listdir example_env ''CAs/'' = Inr example_names \<and>
   os_listdir example_env_shuffled ''CAs/'' = Inr (rev example_names) \<and>
   set example_names = set (rev example_names) \<and>
   distinct example_names \<and> distinct (rev example_names) \<and>
   pd_read_csv example_env = pd_read_csv example_env_shuffled \<and>
   fig_savefig example_env = fig_savefig example_env_shuffled \<and>
   generate_styled_plot example_env ''CAs/'' ''ca.tiff''
     = generate_styled_plot example_env_shuffled ''CAs/'' ''ca.tiff'' \<and>
   map (\<lambda>c. (marker c, linestyle c))
       (curves (fst (generate_styled_plot example_env ''CAs/'' ''ca.tiff'')))
     = [(Some ''o'', Some ''-'')]"
proof -
  have h1: "os_listdir example_env ''CAs/'' = Inr example_names"
    and h2: "os_listdir example_env_shuffled ''CAs/'' = Inr (rev example_names)"
    and h4: "distinct example_names"
    and h6: "pd_read_csv example_env = pd_read_csv example_env_shuffled"
    and h7: "fig_savefig example_env = fig_savefig example_env_shuffled"
    by (simp_all add: example_env_def example_env_shuffled_def example_names_def)
  have h3: "set example_names = set (rev example_names)" by simp
  from h4 have h5: "distinct (rev example_names)" by simp
  have styles: "map (\<lambda>c. (marker c, linestyle c))
       (curves (fst (generate_styled_plot example_env ''CAs/'' ''ca.tiff'')))
     = [(Some ''o'', Some ''-'')]"
    by (simp add: example_styled_run)
  from generate_styled_plot_order_independent[OF h1 h2 h3 h4 h5 h6 h7, of "''ca.tiff''"]
  have same: "generate_styled_plot example_env ''CAs/'' ''ca.tiff''
     = generate_styled_plot example_env_shuffled ''CAs/'' ''ca.tiff''"
    by (rule conjunct1[OF conjunct2[OF conjunct2[OF conjunct2]]])
  from h1 h2 h3 h4 h5 h6 h7 same styles show ?thesis by (intro conjI)
qed


section \<open>Time in minutes and current density\<close>


lemma normalise_time_result:
  assumes "normalise_time data = Inr (x, y)"
  shows "\<exists>ts. map_of data time_col_s = Some (NumCol ts) \<and> ts \<noteq> [] \<and>
              x = NumCol (minutes_since_start ts) \<and> map_of data charge_col = Some y"
proof (cases "map_of data time_col_s")
  case None
  with assms show ?thesis by (simp add: normalise_time_def try_bind_def get_column_def)
next
  case (Some t)
  show ?thesis
  proof (cases t)
    case (NumCol ts)
    show ?thesis
    proof (cases ts)
      case Nil
      with assms Some NumCol show ?thesis
        by (simp add: normalise_time_def try_bind_def get_column_def iloc0_def)
    next
      case (Cons t0 rest)
      with assms Some NumCol show ?thesis
        by (auto simp: normalise_time_def try_bind_def get_column_def iloc0_def col_sub_def
            col_div_def set_column_def update_conv' minutes_since_start_def time_col_s_def
            charge_col_def split: option.splits)
    qed
  next
    case (ObjCol ss)
    with assms Some show ?thesis
      by (cases ss) (simp_all add: normalise_time_def try_bind_def get_column_def iloc0_def
          col_sub_def)
  qed
qed


lemma density_column_numeric:
  "density_column (NumCol cs) (NumCol (map (\<lambda>x. x * 1000 / ELECTRODE_AREA_CM2) cs))"
  by (simp add: density_column_def)

lemma current_density_result:
  assumes "current_density df = Inr y"
  shows "\<exists>cur. map_of df current_col = Some cur \<and> density_column cur y"
proof (cases "map_of df current_col")
  case None
  with assms show ?thesis by (simp add: current_density_def try_bind_def get_column_def)
next
  case (Some cur)
  show ?thesis
  proof (cases cur)
    case (NumCol cs)
    with assms Some have "y = NumCol (map (\<lambda>x. x * 1000 / ELECTRODE_AREA_CM2) cs)"
      by (auto simp: current_density_def try_bind_def get_column_def col_mul_def col_div_def
          comp_def)
    with Some NumCol density_column_numeric show ?thesis by simp
  next
    case (ObjCol ss)
    with assms Some show ?thesis
      by (cases ss) (auto simp: current_density_def try_bind_def get_column_def col_mul_def
          col_div_def density_column_def)
  qed
qed

lemma current_density_series_result:
  assumes "current_density_series data = Inr (x, y)"
  shows "(\<exists>ts. map_of data time_col_s = Some (NumCol ts) \<and> ts \<noteq> [] \<and>
              x = NumCol (minutes_since_start ts)) \<and>
         (\<exists>cur. map_of data current_col = Some cur \<and> density_column cur y)"
proof (cases "map_of data time_col_s")
  case None
  with assms show ?thesis
    by (simp add: current_density_series_def try_bind_def get_column_def)
next
  case (Some t)
  show ?thesis
  proof (cases t)
    case (ObjCol ss)
    with assms Some show ?thesis
      by (cases ss) (simp_all add: current_density_series_def try_bind_def get_column_def
          iloc0_def col_sub_def)
  next
    case (NumCol ts)
    show ?thesis
    proof (cases ts)
      case Nil
      with assms Some NumCol show ?thesis
        by (simp add: current_density_series_def try_bind_def get_column_def iloc0_def)
    next
      case (Cons t0 rest)
      let ?m = "NumCol (minutes_since_start ts)"
      have tm: "map_of data time_col_s = Some (NumCol ts) \<and> ts \<noteq> []"
        using Some NumCol Cons by simp
      have step: "current_density_series data =
        try_bind (get_column data current_col) (\<lambda>i.
        try_bind (col_mul i 1000) (\<lambda>milli.
        try_bind (col_div milli ELECTRODE_AREA_CM2) (\<lambda>j. Inr (?m, j))))"
        using Some NumCol Cons
        by (simp add: current_density_series_def try_bind_def get_column_def iloc0_def
            col_sub_def col_div_def set_column_def update_conv' minutes_since_start_def
            time_col_s_def current_col_def comp_def
            split: sum.splits option.splits)
      from assms have "x = ?m \<and> current_density data = Inr y"
        unfolding step current_density_def
        by (auto simp: try_bind_def split: sum.splits)
      with tm current_density_result[of data y] show ?thesis by blast
    qed
  qed
qed

lemma event_ok_simps [simp]:
  "event_ok P (ReadCsv p s) = (s = TAB)"
  "event_ok P (Plot ax c) = P c"
  "event_ok P (Print m) = True"
  "event_ok P (FormatAxes ax t) = True"
  "event_ok P (SaveFig f) = True"
  by (simp_all add: event_ok_def)

lemma save_figure_ok: "list_all (event_ok P) (save_figure e out)"
  by (simp add: save_figure_def split: option.splits)

lemma then_run_ok:
  assumes "list_all Q (fst a)" "list_all Q (fst b)"
  shows "list_all Q (fst (then_run a b))"
  using assms by (cases a; cases "snd a") (auto simp: then_run_def)

lemma plot_file_ok: "list_all (event_ok (time_normalised e)) (fst (plot_file e d i f))"
proof -
  { fix data x y
    assume r: "pd_read_csv e (path_join d f) TAB = Inr data" and n: "normalise_time data = Inr (x, y)"
    from normalise_time_result[OF n] r
    have "time_normalised e \<lparr>xdata = x, ydata = y, label = l, color = cl, marker = m, linestyle = ls\<rparr>"
      for l cl m ls
      unfolding time_normalised_def by auto }
  then show ?thesis
    by (auto simp: plot_file_def Let_def split: option.splits sum.splits)
qed

lemma plot_files_ok: "list_all (event_ok (time_normalised e)) (plot_files e d i fs)"
proof (induction fs arbitrary: i)
  case Nil
  then show ?case by simp
next
  case (Cons f fs)
  obtain evs i' where pf: "plot_file e d i f = (evs, i')" by (cases "plot_file e d i f")
  with plot_file_ok[of e d i f] Cons.IH[of i'] show ?case by simp
qed

lemma generate_styled_plot_ok:
  "list_all (event_ok (time_normalised e)) (fst (generate_styled_plot e d out))"
  by (auto simp: generate_styled_plot_def plot_files_ok save_figure_ok split: sum.splits)

lemma series_curve:
  assumes "pd_read_csv e p TAB = Inr data" "current_density_series data = Inr (x, y)"
  shows "caj_curve e \<lparr>xdata = x, ydata = y, label = l, color = cl, marker = m, linestyle = ls\<rparr>"
  using current_density_series_result[OF assms(2)] assms(1)
  unfolding caj_curve_def time_normalised_def density_plotted_def by auto

lemma plot_reference_ok: "list_all (event_ok (caj_curve e)) (plot_reference e ax cu)"
  by (auto simp: plot_reference_def series_curve split: option.splits sum.splits)

lemma plot_sample_ok: "list_all (event_ok (caj_curve e)) (fst (plot_sample e ax i p))"
  by (auto simp: plot_sample_def Let_def series_curve split: option.splits sum.splits)

lemma plot_samples_ok: "list_all (event_ok (caj_curve e)) (plot_samples e ax i ps)"
proof (induction ps arbitrary: i)
  case Nil
  then show ?case by simp
next
  case (Cons p ps)
  obtain evs i' where pf: "plot_sample e ax i p = (evs, i')" by (cases "plot_sample e ax i p")
  with plot_sample_ok[of e ax i p] Cons.IH[of i'] show ?case by simp
qed

lemma plot_panel_ok: "list_all (event_ok (caj_curve e)) (fst (plot_panel e axs cu g ik))"
  by (auto simp: plot_panel_def plot_reference_ok plot_samples_ok split: prod.splits sum.splits)

lemma plot_panels_ok: "list_all (event_ok (caj_curve e)) (fst (plot_panels e axs cu g iks))"
  by (induction iks) (simp_all add: then_run_ok plot_panel_ok)

lemma generate_ca_subplots_ok:
  "list_all (event_ok (caj_curve e)) (fst (generate_ca_subplots e d out))"
proof -
  have "list_all (event_ok (caj_curve e))
      (fst (case axes_item axs (- 1) of Inl x \<Rightarrow> ([], Raised x)
            | Inr ax \<Rightarrow> (save_figure e out, Returned)))" for axs
    by (simp add: save_figure_ok split: sum.splits)
  then show ?thesis
    by (auto simp: generate_ca_subplots_def Let_def then_run_ok plot_panels_ok
        split: sum.splits prod.splits)
qed

lemma density_curve:
  assumes "pd_read_csv e p TAB = Inr df" "current_density df = Inr y"
  shows "density_plotted e \<lparr>xdata = x, ydata = y, label = l, color = cl, marker = m, linestyle = ls\<rparr>"
  using current_density_result[OF assms(2)] assms(1)
  unfolding density_plotted_def by auto

lemma lsv_reference_ok: "list_all (event_ok (density_plotted e)) (fst (lsv_reference e ax p))"
  by (auto simp: lsv_reference_def density_curve split: sum.splits)

lemma lsv_sample_ok: "list_all (event_ok (density_plotted e)) (fst (lsv_sample e ax p))"
  by (auto simp: lsv_sample_def Let_def density_curve split: sum.splits)

lemma lsv_samples_ok: "list_all (event_ok (density_plotted e)) (fst (lsv_samples e ax ps))"
  by (induction ps) (simp_all add: then_run_ok lsv_sample_ok)

lemma lsv_panel_ok: "list_all (event_ok (density_plotted e)) (fst (lsv_panel e d ac))"
  by (cases ac) (simp add: lsv_panel_def then_run_ok lsv_reference_ok lsv_samples_ok)

lemma lsv_panels_ok: "list_all (event_ok (density_plotted e)) (fst (lsv_panels e d acs))"
  by (induction acs) (simp_all add: then_run_ok lsv_panel_ok)

lemma plot_lsv_data_ok: "list_all (event_ok (density_plotted e)) (fst (plot_lsv_data e))"
proof -
  have "list_all (event_ok (density_plotted e))
      (fst (case fig_savefig e out of
              Some x \<Rightarrow> ([], Raised x)
            | None \<Rightarrow> ([SaveFig out, Print (Saved out)], Returned)))" for out
    by (simp split: option.splits)
  then show ?thesis
    by (simp add: plot_lsv_data_def Let_def then_run_ok lsv_panels_ok)
qed

lemma load_eis_data_reads:
  "ReadCsv p s \<in> set (fst (load_eis_data e fl)) \<Longrightarrow> s = SEMICOLON"
  by (auto simp: load_eis_data_def split: list.splits sum.splits)










lemma example_groups:
  "group_files ''CAs/'' (txt_files example_names) (None, []) =
     (Some ''CAs/Cu_ref.txt'',
      [(''pH 1'', [''CAs/a_pH1_K2ReCl6.txt'']), (''pH 4'', [''CAs/b_pH4_KReO4.txt''])])"
  by (simp add: example_txt_files match_ph_def is_digit_def path_join_def dict_append_def)

lemma example_subplots_run:
  "generate_ca_subplots example_env ''CAs/'' ''caj.tiff'' =
     ([ReadCsv ''CAs/Cu_ref.txt'' TAB,
       Plot 0 \<lparr>xdata = NumCol [0, 1], ydata = NumCol [1000, 1000], label = ''Cu Reference'',
               color = Some ''grey'', marker = None, linestyle = Some ''--''\<rparr>,
       ReadCsv ''CAs/a_pH1_K2ReCl6.txt'' TAB,
       Print (ProcessingError ''a_pH1_K2ReCl6.txt'' (OtherException ''ParserError'')),
       FormatAxes 0 ''Analysis for pH 1'',
       ReadCsv ''CAs/Cu_ref.txt'' TAB,
       Plot 1 \<lparr>xdata = NumCol [0, 1], ydata = NumCol [1000, 1000], label = ''Cu Reference'',
               color = Some ''grey'', marker = None, linestyle = Some ''--''\<rparr>,
       ReadCsv ''CAs/b_pH4_KReO4.txt'' TAB,
       Plot 1 \<lparr>xdata = NumCol [0, 1, 3], ydata = NumCol [2000, 3000, 5000], label = ''KReO4'',
               color = None, marker = Some ''o'', linestyle = Some ''-''\<rparr>,
       FormatAxes 1 ''Analysis for pH 4'',
       SaveFig ''caj.tiff'', Print (Saved ''caj.tiff'')], Returned)"
proof -
  have l: "os_listdir example_env ''CAs/'' = Inr example_names"
    by (simp add: example_env_def)
  have r: "pd_read_csv example_env = example_read" "fig_savefig example_env = (\<lambda>p. None)"
    by (simp_all add: example_env_def)
  show ?thesis
    by (simp add: generate_ca_subplots_def l example_groups plt_subplots_def enumerate_eq_zip
        upt_rec[of 0] upt_rec[of 1] upt_rec[of 2]
        then_run_def plot_panel_def axes_item_def plot_reference_def plot_sample_def r
        example_read_def example_frame_def frame_defs current_density_series_def
        ELECTRODE_AREA_CM2_def dict_get_def basename_def match_ph_label_def is_digit_def
        strip_def is_space_def newline_def markers_j_def linestyles_def save_figure_def)
qed


section \<open>The plotted series\<close>







section \<open>The pH groups of generate\_ca\_subplots\<close>

lemma group_files_cu:
  "fst (group_files d fs (cu, g)) =
     (case filter (\<lambda>f. contains f ''Cu'') fs of
        [] \<Rightarrow> cu
      | x # xs \<Rightarrow> Some (path_join d (last (x # xs))))"
proof (induction fs arbitrary: cu g)
  case Nil
  then show ?case by simp
next
  case (Cons f fs)
  show ?case
  proof (cases "contains f ''Cu''")
    case True
    with Cons.IH[of "Some (path_join d f)" g] show ?thesis
      by (simp split: list.splits)
  next
    case False
    then show ?thesis
      using Cons.IH by (simp split: option.splits)
  qed
qed

lemma group_files_skip_cu:
  "snd (group_files d fs (cu, g)) =
     snd (group_files d (filter (\<lambda>f. \<not> contains f ''Cu'') fs) (cu', g))"
proof (induction fs arbitrary: cu cu' g)
  case Nil
  then show ?case by simp
next
  case (Cons f fs)
  show ?case
  proof (cases "contains f ''Cu''")
    case True
    with Cons.IH[of "Some (path_join d f)" g cu'] show ?thesis by simp
  next
    case False
    then show ?thesis
      using Cons.IH by (simp split: option.splits)
  qed
qed

lemma group_paths_simps [simp]:
  "group_paths [] = {}"
  "group_paths (kv # g) = set (snd kv) \<union> group_paths g"
  "group_paths (g @ g') = group_paths g \<union> group_paths g'"
  by (simp_all add: group_paths_def)

lemma group_paths_update:
  "map_of g k = Some vs \<Longrightarrow>
     group_paths (AList.update k (vs @ [v]) g) = insert v (group_paths g)"
  by (induction g) auto

lemma group_paths_append:
  "group_paths (dict_append g k v) = insert v (group_paths g)"
  by (cases "map_of g k") (simp_all add: dict_append_def group_paths_update)

lemma group_files_paths:
  "group_paths (snd (group_files d fs (cu, g))) \<subseteq>
     group_paths g \<union> path_join d ` {f \<in> set fs. \<not> contains f ''Cu''}"
proof (induction fs arbitrary: cu g)
  case Nil
  then show ?case by simp
next
  case (Cons f fs)
  show ?case
  proof (cases "contains f ''Cu''")
    case True
    with Cons.IH[of "Some (path_join d f)" g] show ?thesis by auto
  next
    case False
    note notcu = this
    show ?thesis
    proof (cases "contains f ''pH''")
      case False
      with notcu Cons.IH[of cu g] show ?thesis by auto
    next
      case True
      show ?thesis
      proof (cases "search_ph f")
        case None
        with notcu True Cons.IH[of cu g] show ?thesis by auto
      next
        case (Some dg)
        with notcu True
          Cons.IH[of cu "dict_append g (''pH '' @ dg) (path_join d f)"]
        show ?thesis by (auto simp: group_paths_append)
      qed
    qed
  qed
qed

lemma path_join_inject:
  assumes "CHR ''/'' \<notin> set f" "CHR ''/'' \<notin> set f'" "path_join d f = path_join d f'"
  shows "f = f'"
proof -
  have "\<not> prefix ''/'' f" "\<not> prefix ''/'' f'"
    using assms(1,2) by (auto simp: prefix_def)
  with assms(3) show ?thesis
    by (auto simp: path_join_def split: if_splits)
qed

lemma sorted_last_greatest:
  fixes xs :: "string list"
  assumes "sorted xs" "x \<in> set xs"
  shows "x \<le> last xs"
  using assms
proof (induction xs)
  case Nil
  then show ?case by simp
next
  case (Cons a xs)
  then show ?case by (cases xs) auto
qed


lemma plot_label_ph_first:
  assumes "contains g ''pH''"
  shows "plot_label g =
           (case (search_ph g, search_ph_label g) of
              (Some dg, Some l) \<Rightarrow> Some (strip l @ '' (pH '' @ dg @ '')'')
            | _ \<Rightarrow> None)"
    and "plot_label g \<noteq> Some ''Cu''"
proof -
  show eq: "plot_label g =
           (case (search_ph g, search_ph_label g) of
              (Some dg, Some l) \<Rightarrow> Some (strip l @ '' (pH '' @ dg @ '')'')
            | _ \<Rightarrow> None)"
    using assms by (simp add: plot_label_def)
  have "last (strip l @ '' (pH '' @ dg @ '')'') \<noteq> last ''Cu''" for l dg
    by simp
  then have "strip l @ '' (pH '' @ dg @ '')'' \<noteq> ''Cu''" for l dg
    by metis
  then show "plot_label g \<noteq> Some ''Cu''"
    unfolding eq by (auto split: option.splits)
qed

lemma dict_append_keys:
  "map fst (dict_append g k v) = (if k \<in> set (map fst g) then map fst g else map fst g @ [k])"
proof (cases "map_of g k")
  case None
  then have "k \<notin> set (map fst g)" by (simp add: map_of_eq_None_iff)
  with None show ?thesis by (simp add: dict_append_def)
next
  case (Some vs)
  then have "k \<in> fst ` set g" by (metis map_of_eq_None_iff option.distinct(1))
  with Some show ?thesis
    by (simp add: dict_append_def update_keys)
qed

lemma group_files_distinct:
  "distinct (map fst g) \<Longrightarrow> distinct (map fst (snd (group_files d fs (cu, g))))"
proof (induction fs arbitrary: cu g)
  case Nil
  then show ?case by simp
next
  case (Cons f fs)
  have "distinct (map fst (dict_append g k v))" for k v
    using Cons.prems by (simp add: dict_append_keys)
  with Cons show ?case
    by (auto split: option.splits)
qed

lemma ph_keys_distinct: "distinct (ph_keys_of d names)"
  using group_files_distinct[of "[]" d "txt_files names" None]
  by (simp add: ph_keys_of_def)

lemma then_run_returned:
  "snd a = Returned \<Longrightarrow> then_run a b = (fst a @ fst b, snd b)"
  by (cases a) (simp add: then_run_def)

lemma plot_panel_returns:
  "i < n \<Longrightarrow> snd (plot_panel e (AxesArray n) cu g (i, k)) = Returned"
  by (simp add: plot_panel_def axes_item_def)

lemma plot_panels_returns:
  "\<forall>(i, k) \<in> set iks. i < n \<Longrightarrow> snd (plot_panels e (AxesArray n) cu g iks) = Returned"
proof (induction iks)
  case Nil
  then show ?case by simp
next
  case (Cons ik iks)
  obtain i k where ik: "ik = (i, k)" by (cases ik)
  with Cons.prems have "i < n" by simp
  from plot_panel_returns[OF this] ik
  have "snd (plot_panel e (AxesArray n) cu g ik) = Returned" by simp
  from then_run_returned[OF this] Cons show ?case by simp
qed

lemma subplots_run:
  assumes "os_listdir e d = Inr names"
  shows "generate_ca_subplots e d out =
     (case plt_subplots e (length (ph_keys_of d names)) of
        Inl x \<Rightarrow> ([], Raised x)
      | Inr axs \<Rightarrow>
          then_run
            (plot_panels e axs (fst (group_files d (txt_files names) (None, [])))
               (snd (group_files d (txt_files names) (None, [])))
               (enumerate 0 (ph_keys_of d names)))
            (case axes_item axs (- 1) of
               Inl x \<Rightarrow> ([], Raised x)
             | Inr ax \<Rightarrow> (save_figure e out, Returned)))"
  using assms
  by (cases "group_files d (txt_files names) (None, [])")
     (simp add: generate_ca_subplots_def ph_keys_of_def Let_def split: sum.splits)

lemma subplots_many:
  assumes "os_listdir e d = Inr names" "2 \<le> length (ph_keys_of d names)"
  shows "snd (generate_ca_subplots e d out) = Returned"
    and "\<exists>evs. fst (generate_ca_subplots e d out) = evs @ save_figure e out"
proof -
  let ?n = "length (ph_keys_of d names)"
  let ?panels = "plot_panels e (AxesArray ?n) (fst (group_files d (txt_files names) (None, [])))
               (snd (group_files d (txt_files names) (None, [])))
               (enumerate 0 (ph_keys_of d names))"
  from assms(2) have sp: "plt_subplots e ?n = Inr (AxesArray ?n)"
    by (auto simp: plt_subplots_def)
  have "nat (int ?n - 1) = ?n - 1" by arith
  with assms(2) have last: "axes_item (AxesArray ?n) (- 1) = Inr (?n - 1)"
    by (auto simp: axes_item_def Let_def)
  have "\<forall>(i, k) \<in> set (enumerate 0 (ph_keys_of d names)). i < ?n"
    by (auto simp: in_set_enumerate_eq)
  from plot_panels_returns[OF this] have "snd ?panels = Returned" .
  from then_run_returned[OF this]
  have run: "generate_ca_subplots e d out = (fst ?panels @ save_figure e out, Returned)"
    by (simp add: subplots_run[OF assms(1)] sp last)
  from run show "snd (generate_ca_subplots e d out) = Returned" by simp
  from run show "\<exists>evs. fst (generate_ca_subplots e d out) = evs @ save_figure e out" by simp
qed

lemma subplots_one:
  assumes "os_listdir e d = Inr names" "length (ph_keys_of d names) = 1"
  shows "generate_ca_subplots e d out = ([], Raised TypeError)"
proof -
  from assms(2) obtain k where k: "ph_keys_of d names = [k]"
    by (cases "ph_keys_of d names") auto
  show ?thesis
    by (simp add: subplots_run[OF assms(1)] k plt_subplots_def plot_panel_def axes_item_def
        then_run_def)
qed

lemma subplots_none:
  assumes "os_listdir e d = Inr names" "length (ph_keys_of d names) = 0"
  shows "generate_ca_subplots e d out =
           ([], Raised (case plt_subplots_zero_rows e of Some x \<Rightarrow> x | None \<Rightarrow> IndexError))"
  using assms(2)
  by (simp add: subplots_run[OF assms(1)] plt_subplots_def axes_item_def then_run_def
      split: option.splits)

text \<open>
  C8. In the grouping loop of \<open>generate_ca_subplots\<close>, a file whose name holds \<open>Cu\<close>
  is never put into a pH group, whatever else its name holds: the groups are those of
  the listing without these files. The reference is the last of them in the sorted
  listing, so the greatest name. In \<open>generate_styled_plot\<close> the test for \<open>pH\<close> comes
  first: a name that holds \<open>pH\<close> gets its label from the pH pattern, never the label
  \<open>Cu\<close>. The names of a directory listing hold no slash.
\<close>

theorem copper_reference_classification:
  "((\<forall>f \<in> set names. CHR ''/'' \<notin> set f) \<longrightarrow>
      (\<forall>f \<in> set (txt_files names). contains f ''Cu'' \<longrightarrow>
         path_join d f \<notin> group_paths (snd (group_files d (txt_files names) (None, []))) \<and>
         (\<exists>r \<in> set (txt_files names). contains r ''Cu'' \<and> f \<le> r \<and>
            fst (group_files d (txt_files names) (None, [])) = Some (path_join d r))))
   \<and>
   snd (group_files d (txt_files names) (None, [])) =
     snd (group_files d (filter (\<lambda>f. \<not> contains f ''Cu'') (txt_files names)) (None, []))
   \<and>
   (contains g ''pH'' \<longrightarrow>
      plot_label g =
        (case (search_ph g, search_ph_label g) of
           (Some dg, Some l) \<Rightarrow> Some (strip l @ '' (pH '' @ dg @ '')'')
         | _ \<Rightarrow> None) \<and>
      plot_label g \<noteq> Some ''Cu'')
   \<and>
   (contains g ''Cu'' \<longrightarrow> group_files d [g] (None, []) = (Some (path_join d g), []))"
proof -
  let ?fs = "txt_files names"
  let ?cus = "filter (\<lambda>f. contains f ''Cu'') ?fs"
  have a: "path_join d f \<notin> group_paths (snd (group_files d ?fs (None, []))) \<and>
         (\<exists>r \<in> set ?fs. contains r ''Cu'' \<and> f \<le> r \<and>
            fst (group_files d ?fs (None, [])) = Some (path_join d r))"
    if slash: "\<forall>f \<in> set names. CHR ''/'' \<notin> set f" and f: "f \<in> set ?fs" "contains f ''Cu''"
    for f
  proof
    have sub: "set ?fs \<subseteq> set names" by (auto simp: txt_files_def)
    show "path_join d f \<notin> group_paths (snd (group_files d ?fs (None, [])))"
    proof
      assume "path_join d f \<in> group_paths (snd (group_files d ?fs (None, [])))"
      with group_files_paths[of d ?fs None "[]"]
      obtain f' where f': "f' \<in> set ?fs" "\<not> contains f' ''Cu''" "path_join d f = path_join d f'"
        by auto
      from slash sub f(1) f'(1) have "CHR ''/'' \<notin> set f" "CHR ''/'' \<notin> set f'" by auto
      from path_join_inject[OF this f'(3)] f(2) f'(2) show False by simp
    qed
    from f have mem: "f \<in> set ?cus" by simp
    then obtain x xs where cons: "?cus = x # xs" by (cases ?cus) auto
    have "sorted ?fs" by (simp add: txt_files_def)
    then have srt: "sorted ?cus" by (rule sorted_wrt_filter)
    let ?r = "last ?cus"
    have "?r \<in> set ?cus" using cons by (metis last_in_set list.distinct(1))
    then have r: "?r \<in> set ?fs" "contains ?r ''Cu''" by auto
    have le: "f \<le> ?r" by (rule sorted_last_greatest[OF srt mem])
    have "fst (group_files d ?fs (None, [])) = Some (path_join d ?r)"
      using group_files_cu[of d ?fs None "[]"] cons by simp
    with r le show "\<exists>r \<in> set ?fs. contains r ''Cu'' \<and> f \<le> r \<and>
            fst (group_files d ?fs (None, [])) = Some (path_join d r)"
      by blast
  qed
  have b: "snd (group_files d ?fs (None, [])) =
     snd (group_files d (filter (\<lambda>f. \<not> contains f ''Cu'') ?fs) (None, []))"
    by (rule group_files_skip_cu)
  have c: "contains g ''Cu'' \<Longrightarrow> group_files d [g] (None, []) = (Some (path_join d g), [])"
    by simp
  from a b c plot_label_ph_first[of g] show ?thesis by blast
qed

text \<open>C8 on a listing where one name holds both \<open>Cu\<close> and a pH tag.\<close>

theorem copper_reference_classification_witness:
  "CHR ''/'' \<notin> set ''Cu_pH1_x.txt'' \<and> CHR ''/'' \<notin> set ''a_pH1_K2.txt'' \<and>
   CHR ''/'' \<notin> set ''Cu_ref.txt'' \<and>
   ''Cu_pH1_x.txt'' \<in> set (txt_files [''Cu_pH1_x.txt'', ''a_pH1_K2.txt'', ''Cu_ref.txt'']) \<and>
   contains ''Cu_pH1_x.txt'' ''Cu'' \<and> contains ''Cu_pH1_x.txt'' ''pH'' \<and>
   path_join ''CAs/'' ''Cu_pH1_x.txt''
     \<notin> group_paths (snd (group_files ''CAs/''
          (txt_files [''Cu_pH1_x.txt'', ''a_pH1_K2.txt'', ''Cu_ref.txt'']) (None, []))) \<and>
   group_files ''CAs/'' (txt_files [''Cu_pH1_x.txt'', ''a_pH1_K2.txt'', ''Cu_ref.txt''])
       (None, [])
     = (Some ''CAs/Cu_ref.txt'', [(''pH 1'', [''CAs/a_pH1_K2.txt''])]) \<and>
   plot_label ''Cu_pH1_x.txt'' = Some ''x (pH 1)'' \<and>
   plot_label ''Cu_pH1_x.txt'' \<noteq> Some ''Cu'' \<and>
   group_files ''CAs/'' [''Cu_pH1_x.txt''] (None, []) = (Some ''CAs/Cu_pH1_x.txt'', [])"
proof -
  let ?names = "[''Cu_pH1_x.txt'', ''a_pH1_K2.txt'', ''Cu_ref.txt'']"
  have files: "txt_files ?names = [''Cu_pH1_x.txt'', ''Cu_ref.txt'', ''a_pH1_K2.txt'']"
    by (simp add: txt_files_def suffix_def)
  have h: "\<forall>f \<in> set ?names. CHR ''/'' \<notin> set f" by simp
  have m: "''Cu_pH1_x.txt'' \<in> set (txt_files ?names)" by (simp add: files)
  have cu: "contains ''Cu_pH1_x.txt'' ''Cu''" and ph: "contains ''Cu_pH1_x.txt'' ''pH''"
    by simp_all
  have groups: "group_files ''CAs/'' (txt_files ?names) (None, [])
     = (Some ''CAs/Cu_ref.txt'', [(''pH 1'', [''CAs/a_pH1_K2.txt''])])"
    by (simp add: files match_ph_def is_digit_def path_join_def dict_append_def)
  have lbl: "plot_label ''Cu_pH1_x.txt'' = Some ''x (pH 1)''"
    by (simp add: label_defs)
  note inst = copper_reference_classification[of ?names "''CAs/''" "''Cu_pH1_x.txt''"]
  from inst h m cu have a: "path_join ''CAs/'' ''Cu_pH1_x.txt''
     \<notin> group_paths (snd (group_files ''CAs/'' (txt_files ?names) (None, [])))"
    by blast
  from inst ph have b: "plot_label ''Cu_pH1_x.txt'' \<noteq> Some ''Cu''" by blast
  from inst cu have c: "group_files ''CAs/'' [''Cu_pH1_x.txt''] (None, [])
      = (Some (path_join ''CAs/'' ''Cu_pH1_x.txt''), [])"
    by blast
  then have c': "group_files ''CAs/'' [''Cu_pH1_x.txt''] (None, [])
      = (Some ''CAs/Cu_pH1_x.txt'', [])"
    by (simp add: path_join_def)
  have h': "CHR ''/'' \<notin> set ''Cu_pH1_x.txt'' \<and> CHR ''/'' \<notin> set ''a_pH1_K2.txt'' \<and>
      CHR ''/'' \<notin> set ''Cu_ref.txt''"
    by simp
  from h' m cu ph a groups lbl b c' show ?thesis by blast
qed

text \<open>
  C9, as amended. When the directory can be listed, \<open>generate_ca_subplots\<close> reaches
  the saving of its figure only with two pH groups at least. With one group the subscript of the
  single Axes object raises \<open>TypeError\<close> before any file is read. With no group the run
  ends with the exception of \<open>plt.subplots\<close> where the library refuses zero rows, and
  with the \<open>IndexError\<close> of \<open>axes[-1]\<close> where it returns an empty array. In both cases
  nothing is read or saved.
\<close>

theorem subplots_need_two_groups:
  assumes "os_listdir e d = Inr names"
  shows "distinct (ph_keys_of d names) \<and>
         (2 \<le> length (ph_keys_of d names) \<longrightarrow>
            snd (generate_ca_subplots e d out) = Returned \<and>
            (\<exists>evs. fst (generate_ca_subplots e d out) = evs @ save_figure e out) \<and>
            (fig_savefig e out = None \<longrightarrow>
               SaveFig out \<in> set (fst (generate_ca_subplots e d out)))) \<and>
         (length (ph_keys_of d names) = 1 \<longrightarrow>
            generate_ca_subplots e d out = ([], Raised TypeError)) \<and>
         (length (ph_keys_of d names) = 0 \<longrightarrow>
            generate_ca_subplots e d out =
              ([], Raised (case plt_subplots_zero_rows e of
                             Some x \<Rightarrow> x | None \<Rightarrow> IndexError))) \<and>
         (filter is_save (fst (generate_ca_subplots e d out)) \<noteq> [] \<longrightarrow>
            2 \<le> length (ph_keys_of d names))"
proof -
  let ?n = "length (ph_keys_of d names)"
  have many: "snd (generate_ca_subplots e d out) = Returned \<and>
            (\<exists>evs. fst (generate_ca_subplots e d out) = evs @ save_figure e out) \<and>
            (fig_savefig e out = None \<longrightarrow>
               SaveFig out \<in> set (fst (generate_ca_subplots e d out)))"
    if "2 \<le> ?n"
  proof -
    from subplots_many[OF assms that, of out]
    obtain evs where r: "snd (generate_ca_subplots e d out) = Returned"
      "fst (generate_ca_subplots e d out) = evs @ save_figure e out"
      by blast
    then show ?thesis by (auto simp: save_figure_def)
  qed
  have one: "generate_ca_subplots e d out = ([], Raised TypeError)" if "?n = 1"
    by (rule subplots_one[OF assms that])
  have none: "generate_ca_subplots e d out =
      ([], Raised (case plt_subplots_zero_rows e of Some x \<Rightarrow> x | None \<Rightarrow> IndexError))"
    if "?n = 0"
    by (rule subplots_none[OF assms that])
  have only: "2 \<le> ?n" if "filter is_save (fst (generate_ca_subplots e d out)) \<noteq> []"
  proof (rule ccontr)
    assume "\<not> 2 \<le> ?n"
    then have "?n = 0 \<or> ?n = 1" by linarith
    with one none have "fst (generate_ca_subplots e d out) = []" by auto
    with that show False by simp
  qed
  from ph_keys_distinct[of d names] many one none only show ?thesis by blast
qed

text \<open>C9 on the example directory, on a listing with one group and on one with none.\<close>

theorem subplots_need_two_groups_witness:
  "os_listdir example_env ''CAs/'' = Inr example_names \<and>
   ph_keys_of ''CAs/'' example_names = [''pH 1'', ''pH 4''] \<and>
   snd (generate_ca_subplots example_env ''CAs/'' ''caj.tiff'') = Returned \<and>
   SaveFig ''caj.tiff'' \<in> set (fst (generate_ca_subplots example_env ''CAs/'' ''caj.tiff'')) \<and>
   ph_keys_of ''CAs/'' [''a_pH1_K2.txt'', ''Cu_ref.txt''] = [''pH 1''] \<and>
   generate_ca_subplots example_env_one_group ''CAs/'' ''caj.tiff''
     = ([], Raised TypeError) \<and>
   ph_keys_of ''CAs/'' [''Cu_ref.txt''] = [] \<and>
   generate_ca_subplots example_env_no_group ''CAs/'' ''caj.tiff''
     = ([], Raised ValueError)"
proof -
  have h: "os_listdir example_env ''CAs/'' = Inr example_names"
    by (simp add: example_env_def)
  have k2: "ph_keys_of ''CAs/'' example_names = [''pH 1'', ''pH 4'']"
    by (simp add: ph_keys_of_def example_groups)
  have sv: "fig_savefig example_env ''caj.tiff'' = None"
    by (simp add: example_env_def)
  from subplots_need_two_groups[OF h, of "''caj.tiff''"] k2 sv
  have two: "snd (generate_ca_subplots example_env ''CAs/'' ''caj.tiff'') = Returned \<and>
      SaveFig ''caj.tiff'' \<in> set (fst (generate_ca_subplots example_env ''CAs/'' ''caj.tiff''))"
    by simp
  let ?e1 = "example_env_one_group"
  have h1: "os_listdir ?e1 ''CAs/'' = Inr [''a_pH1_K2.txt'', ''Cu_ref.txt'']"
    by (simp add: example_env_one_group_def)
  have k1: "ph_keys_of ''CAs/'' [''a_pH1_K2.txt'', ''Cu_ref.txt''] = [''pH 1'']"
    by (simp add: ph_keys_of_def txt_files_def suffix_def match_ph_def is_digit_def
        path_join_def dict_append_def)
  from subplots_need_two_groups[OF h1, of "''caj.tiff''"] k1
  have one: "generate_ca_subplots ?e1 ''CAs/'' ''caj.tiff'' = ([], Raised TypeError)"
    by simp
  let ?e0 = "example_env_no_group"
  have h0: "os_listdir ?e0 ''CAs/'' = Inr [''Cu_ref.txt'']"
    by (simp add: example_env_no_group_def)
  have k0: "ph_keys_of ''CAs/'' [''Cu_ref.txt''] = []"
    by (simp add: ph_keys_of_def txt_files_def suffix_def)
  have z: "plt_subplots_zero_rows ?e0 = Some ValueError"
    by (simp add: example_env_no_group_def example_env_def)
  from subplots_need_two_groups[OF h0, of "''caj.tiff''"] k0 z
  have none: "generate_ca_subplots ?e0 ''CAs/'' ''caj.tiff'' = ([], Raised ValueError)"
    by simp
  from h k2 two k1 one k0 none show ?thesis by blast
qed

text \<open>
  C9 as stated fails where \<open>plt.subplots\<close> refuses zero rows: with no pH group the run
  ends with the \<open>ValueError\<close> of \<open>plt.subplots\<close>, and \<open>axes[-1]\<close> is not reached.
\<close>

theorem subplots_zero_groups_counterexample:
  "os_listdir example_env_no_group ''CAs/'' = Inr [''Cu_ref.txt''] \<and>
   ph_keys_of ''CAs/'' [''Cu_ref.txt''] = [] \<and>
   plt_subplots example_env_no_group 0 = Inl ValueError \<and>
   generate_ca_subplots example_env_no_group ''CAs/'' ''caj.tiff'' = ([], Raised ValueError) \<and>
   ValueError \<noteq> IndexError"
  by (simp add: ph_keys_of_def txt_files_def suffix_def plt_subplots_def example_env_def
      example_env_no_group_def generate_ca_subplots_def)


section \<open>The separators and load\_eis\_data\<close>

lemma drop_y_columns_names:
  "(name, col) \<in> set (drop_y_columns df) \<Longrightarrow> \<not> suffix ''_y'' name"
  by (auto simp: drop_y_columns_def)

lemma reads_with_simps [simp]:
  "reads_with sep (ReadCsv p s) = (s = sep)"
  "reads_with sep (Plot ax c) = True"
  "reads_with sep (Print m) = True"
  "reads_with sep (FormatAxes ax t) = True"
  "reads_with sep (SaveFig f) = True"
  by (simp_all add: reads_with_def)

lemma event_ok_reads: "event_ok P ev \<Longrightarrow> reads_with TAB ev"
  by (cases ev) (simp_all add: event_ok_def)

lemma list_all_event_ok_reads:
  "list_all (event_ok P) evs \<Longrightarrow> list_all (reads_with TAB) evs"
  by (auto simp: list_all_iff dest: event_ok_reads)

lemma load_eis_data_sep: "list_all (reads_with SEMICOLON) (fst (load_eis_data e fl))"
  by (auto simp: load_eis_data_def split: list.splits sum.splits)

lemma plot_columns_sep: "list_all (reads_with SEMICOLON) (fst (plot_columns ax df xc yc chem))"
  by (simp add: plot_columns_def Let_def split: sum.splits)

lemma plot_experiment_sep: "list_all (reads_with SEMICOLON) (fst (plot_experiment e panel cf))"
proof -
  obtain chem fl where cf: "cf = (chem, fl)" by (cases cf)
  obtain evs r where l: "load_eis_data e fl = (evs, r)" by (cases "load_eis_data e fl")
  with load_eis_data_sep[of e fl] have evs: "list_all (reads_with SEMICOLON) evs" by simp
  show ?thesis
  proof (cases r)
    case None
    with cf l evs show ?thesis by (simp add: plot_experiment_def)
  next
    case (Some df)
    have "list_all (reads_with SEMICOLON)
        (fst (then_run (evs, Returned)
               (then_run (plot_columns panel df z_real_col z_imag_col chem)
                  (then_run (plot_columns (9 + panel) df frequency_col z_abs_col chem)
                     (plot_columns (18 + panel) df frequency_col phase_col chem)))))"
      by (intro then_run_ok) (simp_all add: evs plot_columns_sep)
    with cf l Some show ?thesis by (simp add: plot_experiment_def)
  qed
qed

lemma plot_experiments_sep:
  "list_all (reads_with SEMICOLON) (fst (plot_experiments e panel cfs))"
  by (induction cfs) (simp_all add: then_run_ok plot_experiment_sep)

lemma plot_cell_sep: "list_all (reads_with SEMICOLON) (fst (plot_cell e g cell))"
proof -
  obtain i p j c where cell: "cell = ((i, p), (j, c))" by (cases cell) auto
  show ?thesis
    by (simp add: cell plot_cell_def Let_def then_run_ok plot_experiments_sep)
qed

lemma plot_cells_sep: "list_all (reads_with SEMICOLON) (fst (plot_cells e g cells))"
  by (induction cells) (simp_all add: then_run_ok plot_cell_sep)

lemma save_all_sep: "list_all (reads_with SEMICOLON) (fst (save_all e fs))"
  by (induction fs) (simp_all add: then_run_ok split: option.splits)

lemma plot_eis_data_sep: "list_all (reads_with SEMICOLON) (fst (plot_eis_data e))"
proof (cases "group_files_by_experiment e ''EIS/''")
  case (Inl x)
  then show ?thesis by (simp add: plot_eis_data_def)
next
  case (Inr g)
  have "list_all (reads_with SEMICOLON) (fst (then_run (plot_cells e g cells) (save_all e fs)))"
    for cells fs
    by (rule then_run_ok[OF plot_cells_sep save_all_sep])
  with Inr show ?thesis by (simp only: plot_eis_data_def sum.case)
qed

lemma list_all_reads:
  assumes "list_all (reads_with sep) evs" "ReadCsv p s \<in> set evs"
  shows "s = sep"
  using assms by (auto simp: list_all_iff)

lemmas eis_col_defs = frequency_col_def z_real_col_def z_imag_col_def z_abs_col_def phase_col_def

lemma example_load:
  "load_eis_data example_env
       [''EIS/1_KReO4 pH 1 OCP (Nyquist).txt'', ''EIS/1_KReO4 pH 1 OCP (Bode).txt'']
     = ([ReadCsv ''EIS/1_KReO4 pH 1 OCP (Nyquist).txt'' SEMICOLON,
         ReadCsv ''EIS/1_KReO4 pH 1 OCP (Bode).txt'' SEMICOLON],
        Some [(frequency_col, NumCol [10, 100]), (''Time (s)'', NumCol [0, 1]),
              (z_real_col, NumCol [5, 6]), (z_imag_col, NumCol [1, 2]),
              (z_abs_col, NumCol [7, 8]), (phase_col, NumCol [30, 40])])"
proof -
  have r: "pd_read_csv example_env = example_read" "pd_merge example_env = example_merge"
    by (simp_all add: example_env_def)
  show ?thesis
    by (simp add: load_eis_data_def r example_read_def example_nyquist_def example_bode_def
        example_merge_def has_column_def drop_y_columns_def eis_col_defs suffix_def)
qed


text \<open>
  C4. Every \<open>pd.read_csv\<close> call of the two chronoamperometry functions and of
  \<open>plot_lsv_data\<close> has the tab as its separator, and every such call of
  \<open>load_eis_data\<close>, which makes all the reads of \<open>plot_eis_data\<close>, has the semicolon.
\<close>

theorem separators_of_the_scripts:
  "(ReadCsv p s \<in> set (fst (generate_styled_plot e d out)) \<or>
    ReadCsv p s \<in> set (fst (generate_ca_subplots e d out)) \<or>
    ReadCsv p s \<in> set (fst (plot_lsv_data e))
    \<longrightarrow> s = TAB)
   \<and>
   (ReadCsv p s \<in> set (fst (load_eis_data e file_list)) \<or>
    ReadCsv p s \<in> set (fst (plot_eis_data e))
    \<longrightarrow> s = SEMICOLON)
   \<and> TAB = CHR 0x09 \<and> SEMICOLON = CHR '';''"
proof -
  note tabs = list_all_event_ok_reads[OF generate_styled_plot_ok]
    list_all_event_ok_reads[OF generate_ca_subplots_ok]
    list_all_event_ok_reads[OF plot_lsv_data_ok]
  have a: "s = TAB" if "ReadCsv p s \<in> set (fst (generate_styled_plot e d out)) \<or>
    ReadCsv p s \<in> set (fst (generate_ca_subplots e d out)) \<or>
    ReadCsv p s \<in> set (fst (plot_lsv_data e))"
    using that tabs[of e] list_all_reads[of TAB _ p s] by blast
  have b: "s = SEMICOLON" if "ReadCsv p s \<in> set (fst (load_eis_data e file_list)) \<or>
    ReadCsv p s \<in> set (fst (plot_eis_data e))"
    using that load_eis_data_sep[of e file_list] plot_eis_data_sep[of e]
      list_all_reads[of SEMICOLON _ p s] by blast
  from a b show ?thesis by (auto simp: TAB_def SEMICOLON_def)
qed

text \<open>C4 on reads of the example runs.\<close>

theorem separators_of_the_scripts_witness:
  "ReadCsv ''CAs/b_pH4_KReO4.txt'' TAB
     \<in> set (fst (generate_styled_plot example_env ''CAs/'' ''ca.tiff'')) \<and>
   ReadCsv ''CAs/b_pH4_KReO4.txt'' SEMICOLON
     \<notin> set (fst (generate_styled_plot example_env ''CAs/'' ''ca.tiff'')) \<and>
   ReadCsv ''EIS/1_KReO4 pH 1 OCP (Bode).txt'' SEMICOLON
     \<in> set (fst (load_eis_data example_env
          [''EIS/1_KReO4 pH 1 OCP (Nyquist).txt'', ''EIS/1_KReO4 pH 1 OCP (Bode).txt''])) \<and>
   ReadCsv ''EIS/1_KReO4 pH 1 OCP (Bode).txt'' TAB
     \<notin> set (fst (load_eis_data example_env
          [''EIS/1_KReO4 pH 1 OCP (Nyquist).txt'', ''EIS/1_KReO4 pH 1 OCP (Bode).txt'']))"
proof -
  let ?fl = "[''EIS/1_KReO4 pH 1 OCP (Nyquist).txt'', ''EIS/1_KReO4 pH 1 OCP (Bode).txt'']"
  have ne: "SEMICOLON \<noteq> TAB" by (simp add: TAB_def SEMICOLON_def)
  have a: "ReadCsv ''CAs/b_pH4_KReO4.txt'' TAB
     \<in> set (fst (generate_styled_plot example_env ''CAs/'' ''ca.tiff''))"
    by (simp add: example_styled_run)
  have c: "ReadCsv ''EIS/1_KReO4 pH 1 OCP (Bode).txt'' SEMICOLON
     \<in> set (fst (load_eis_data example_env ?fl))"
    by (simp add: example_load)
  from separators_of_the_scripts[of "''CAs/b_pH4_KReO4.txt''" SEMICOLON example_env
      "''CAs/''" "''ca.tiff''" ?fl] ne
  have b: "ReadCsv ''CAs/b_pH4_KReO4.txt'' SEMICOLON
     \<notin> set (fst (generate_styled_plot example_env ''CAs/'' ''ca.tiff''))"
    by blast
  from separators_of_the_scripts[of "''EIS/1_KReO4 pH 1 OCP (Bode).txt''" TAB example_env
      "''CAs/''" "''ca.tiff''" ?fl] ne[symmetric]
  have d: "ReadCsv ''EIS/1_KReO4 pH 1 OCP (Bode).txt'' TAB
     \<notin> set (fst (load_eis_data example_env ?fl))"
    by blast
  from a b c d show ?thesis by blast
qed

text \<open>
  C10. \<open>load_eis_data\<close> returns \<open>None\<close>, without a read, for a list of neither one nor
  two files, and returns \<open>None\<close> when a read or the merge raises. For two files that are
  read and merged, it returns the merged frame without the columns whose names end in
  \<open>_y\<close>, so no column name of a frame returned for two files ends in \<open>_y\<close>.
\<close>

theorem load_eis_data_results:
  "(length file_list \<noteq> 1 \<and> length file_list \<noteq> 2 \<longrightarrow> load_eis_data e file_list = ([], None))
   \<and>
   (pd_read_csv e f0 SEMICOLON = Inl x \<longrightarrow>
      snd (load_eis_data e [f0]) = None \<and> snd (load_eis_data e [f0, f1]) = None)
   \<and>
   (pd_read_csv e f0 SEMICOLON = Inr df1 \<and> pd_read_csv e f1 SEMICOLON = Inl x \<longrightarrow>
      snd (load_eis_data e [f0, f1]) = None)
   \<and>
   (pd_read_csv e f0 SEMICOLON = Inr df1 \<and> pd_read_csv e f1 SEMICOLON = Inr df2 \<and>
    (if \<not> has_column df2 z_real_col then pd_merge e df1 df2 else pd_merge e df2 df1) = Inl x
    \<longrightarrow> snd (load_eis_data e [f0, f1]) = None)
   \<and>
   (pd_read_csv e f0 SEMICOLON = Inr df1 \<and> pd_read_csv e f1 SEMICOLON = Inr df2 \<and>
    (if \<not> has_column df2 z_real_col then pd_merge e df1 df2 else pd_merge e df2 df1)
      = Inr merged
    \<longrightarrow> snd (load_eis_data e [f0, f1]) = Some (drop_y_columns merged))
   \<and>
   (snd (load_eis_data e [g0, g1]) = Some df \<longrightarrow>
      (\<forall>(name, col) \<in> set df. \<not> suffix ''_y'' name))"
proof -
  have other: "load_eis_data e file_list = ([], None)"
    if "length file_list \<noteq> 1 \<and> length file_list \<noteq> 2"
    using that by (cases file_list rule: list.exhaust[case_product list.exhaust])
      (auto simp: load_eis_data_def split: list.splits)
  have two: "\<forall>(name, col) \<in> set df. \<not> suffix ''_y'' name"
    if "snd (load_eis_data e [g0, g1]) = Some df"
    using that
    by (auto simp: load_eis_data_def drop_y_columns_def split: sum.splits if_splits)
  show ?thesis
    using other two
    by (auto simp: load_eis_data_def)
qed

text \<open>
  C10 on the example: a list of three files, a file that cannot be parsed, and
  the split experiment, whose merged frame has lost the second time column.
\<close>

theorem load_eis_data_results_witness:
  "length [''a'', ''b'', ''c''] \<noteq> 1 \<and> length [''a'', ''b'', ''c''] \<noteq> 2 \<and>
   load_eis_data example_env [''a'', ''b'', ''c''] = ([], None) \<and>
   pd_read_csv example_env ''EIS/2_K2ReCl6 pH 4 FAR (Nyquist and Bode).txt'' SEMICOLON
     = Inl (OtherException ''ParserError'') \<and>
   snd (load_eis_data example_env [''EIS/2_K2ReCl6 pH 4 FAR (Nyquist and Bode).txt'']) = None \<and>
   example_merge example_nyquist example_bode
     = Inr (example_nyquist @
            [(''Time (s)_y'', NumCol [0, 1]), (z_abs_col, NumCol [7, 8]),
             (phase_col, NumCol [30, 40])]) \<and>
   snd (load_eis_data example_env
          [''EIS/1_KReO4 pH 1 OCP (Nyquist).txt'', ''EIS/1_KReO4 pH 1 OCP (Bode).txt''])
     = Some [(frequency_col, NumCol [10, 100]), (''Time (s)'', NumCol [0, 1]),
             (z_real_col, NumCol [5, 6]), (z_imag_col, NumCol [1, 2]),
             (z_abs_col, NumCol [7, 8]), (phase_col, NumCol [30, 40])] \<and>
   \<not> suffix ''_y'' phase_col"
proof -
  let ?bad = "''EIS/2_K2ReCl6 pH 4 FAR (Nyquist and Bode).txt''"
  let ?n = "''EIS/1_KReO4 pH 1 OCP (Nyquist).txt''"
  let ?b = "''EIS/1_KReO4 pH 1 OCP (Bode).txt''"
  let ?df = "[(frequency_col, NumCol [10, 100]), (''Time (s)'', NumCol [0, 1]),
             (z_real_col, NumCol [5, 6]), (z_imag_col, NumCol [1, 2]),
             (z_abs_col, NumCol [7, 8]), (phase_col, NumCol [30, 40])]"
  have len: "length [''a'', ''b'', ''c''] \<noteq> 1 \<and> length [''a'', ''b'', ''c''] \<noteq> 2" by simp
  have bad: "pd_read_csv example_env ?bad SEMICOLON = Inl (OtherException ''ParserError'')"
    by (simp add: example_env_def example_read_def)
  have mrg: "example_merge example_nyquist example_bode
     = Inr (example_nyquist @
            [(''Time (s)_y'', NumCol [0, 1]), (z_abs_col, NumCol [7, 8]),
             (phase_col, NumCol [30, 40])])"
    by (simp add: example_merge_def example_nyquist_def example_bode_def eis_col_defs)
  have two: "snd (load_eis_data example_env [?n, ?b]) = Some ?df"
    by (simp add: example_load)
  from load_eis_data_results[of "[''a'', ''b'', ''c'']" example_env ?bad
      "OtherException ''ParserError''" "''x''" "[]" "[]" "[]" ?n ?b ?df] len
  have a: "load_eis_data example_env [''a'', ''b'', ''c''] = ([], None)" by blast
  from load_eis_data_results[of "[''a'', ''b'', ''c'']" example_env ?bad
      "OtherException ''ParserError''" "''x''" "[]" "[]" "[]" ?n ?b ?df] bad
  have b: "snd (load_eis_data example_env [?bad]) = None" by blast
  from load_eis_data_results[of "[''a'', ''b'', ''c'']" example_env ?bad
      "OtherException ''ParserError''" "''x''" "[]" "[]" "[]" ?n ?b ?df] two
  have "\<forall>(name, col) \<in> set ?df. \<not> suffix ''_y'' name" by blast
  then have c: "\<not> suffix ''_y'' phase_col" by simp
  from len a bad b mrg two c show ?thesis by blast
qed


end
